theory Spec2Isabelle
  imports Complex_Main "HOL-Library.Sublist"
begin

section \<open>Python values used by the chatbot\<close>

text \<open>
  Python strings are modelled as \<open>string\<close> (lists of 8-bit characters), so the case
  mapping and the whitespace test below are the ASCII part of \<open>str.lower\<close> and
  \<open>str.strip\<close>. The substring test \<open>k in s\<close> of Python is \<^const>\<open>sublist\<close>
  \<open>k s\<close> (\<open>s = ps @ k @ ss\<close> for some \<open>ps\<close>, \<open>ss\<close>).

  Python floats are modelled as exact rationals. The confidences the program computes are
  \<open>0.9\<close>, \<open>0.8\<close>, \<open>min(0.7, k * 0.2)\<close>, \<open>min(k / 3.0, 1.0)\<close>, \<open>0.95\<close>, \<open>0.5\<close> and
  \<open>0.0\<close>; the program only compares them and takes minima.
\<close>

definition lower_char :: "char \<Rightarrow> char" where
  "lower_char c =
     (let n = (of_char c :: nat) in if 65 \<le> n \<and> n \<le> 90 then char_of (n + 32) else c)"

definition lower :: "string \<Rightarrow> string" where
  "lower s = map lower_char s"

definition isspace :: "char \<Rightarrow> bool" where
  "isspace c = (let n = (of_char c :: nat) in (9 \<le> n \<and> n \<le> 13) \<or> (28 \<le> n \<and> n \<le> 32))"

definition strip :: "string \<Rightarrow> string" where
  "strip s = rev (dropWhile isspace (rev (dropWhile isspace s)))"

datatype exn = IndexError | ZeroDivisionError | ApiError

text \<open>
  \<open>random.choice(seq)\<close>: the generator's draw is the parameter \<open>pk\<close>; an empty
  sequence raises \<open>IndexError\<close>.
\<close>

definition random_choice :: "nat \<Rightarrow> 'a list \<Rightarrow> exn + 'a" where
  "random_choice pk seq =
     (if seq = [] then Inl IndexError else Inr (seq ! (pk mod length seq)))"

text \<open>\<open>xs[-n:]\<close>: the last \<open>n\<close> elements, all of them when there are fewer.\<close>

definition last_n :: "nat \<Rightarrow> 'a list \<Rightarrow> 'a list" where
  "last_n n xs = drop (length xs - n) xs"

text \<open>\<open>d[k] = d.get(k, 0) + 1\<close> on an insertion-ordered dict.\<close>

fun bump :: "(string \<times> nat) list \<Rightarrow> string \<Rightarrow> (string \<times> nat) list" where
  "bump [] k = [(k, 1)]"
| "bump ((k', n) # d) k = (if k' = k then (k', n + 1) # d else (k', n) # bump d k)"

text \<open>
  The format specifications \<open>:.1f\<close> and \<open>:.2f\<close>: \<open>d\<close> digits after the point, the
  value rounded to the nearest, a tie to the even neighbour.
\<close>

fun show_nat :: "nat \<Rightarrow> string" where
  "show_nat n =
     (if n < 10 then [char_of (48 + n)] else show_nat (n div 10) @ [char_of (48 + n mod 10)])"

definition round_half_even :: "rat \<Rightarrow> int" where
  "round_half_even x =
     (let f = \<lfloor>x\<rfloor>; r = x - of_int f
      in if r < 1 / 2 then f else if 1 / 2 < r then f + 1 else if even f then f else f + 1)"

definition format_fixed :: "nat \<Rightarrow> rat \<Rightarrow> string" where
  "format_fixed d v =
     (let scaled = nat (round_half_even (\<bar>v\<bar> * 10 ^ d));
          whole = show_nat (scaled div 10 ^ d);
          frac = show_nat (scaled mod 10 ^ d)
      in (if v < 0 then ''-'' else []) @ whole @
         (if d = 0 then [] else ''.'' @ replicate (d - length frac) (CHR ''0'') @ frac))"

text \<open>
  What one request reads from outside the program: the draw of \<open>random.choice\<close>, the
  text of \<open>datetime.now().isoformat()\<close> and the measured
  \<open>(datetime.now() - start_time).total_seconds()\<close>.
\<close>

record env =
  pick :: nat
  now_iso :: string
  elapsed :: rat


section \<open>chatbot\_core.py: CustomerSupportChatbot\<close>

record intent_data =
  intent_keywords :: "string list"
  intent_responses :: "string list"

text \<open>A dict iterates in insertion order: the catalog is an association list.\<close>

type_synonym intents = "(string \<times> intent_data) list"

definition initialize_intents :: intents where
  "initialize_intents = [
    (''greeting'', \<lparr>
      intent_keywords =
        [''hi'', ''hello'', ''hey'', ''good morning'', ''good afternoon'', ''good evening''],
      intent_responses =
        [''Hi! Welcome to our customer support. How can I help you today?'',
         ''Hello! I'm here to assist you with any questions or concerns.'',
         ''Hi there! Welcome to our support center. What can I help you with?'',
         ''Hello! How can I make your day better today?'']\<rparr>),
    (''order_status'', \<lparr>
      intent_keywords =
        [''order'', ''status'', ''tracking'', ''shipped'', ''delivery'', ''where is my order'',
         ''track my order''],
      intent_responses =
        [''I can help you track your order! Please provide your order number and I'll check the status for you.'',
         ''To check your order status, I'll need your order number. What's your order number?'',
         ''I can look up your order status. Please share your order number with me.'',
         ''Let me help you track your order. Could you please provide your order number?'']\<rparr>),
    (''shipping'', \<lparr>
      intent_keywords =
        [''shipping'', ''delivery'', ''shipping time'', ''how long'', ''when will it arrive'',
         ''delivery time''],
      intent_responses =
        [''We offer standard shipping (3-5 business days) and express shipping (1-2 business days). Which option would you like to know more about?'',
         ''Shipping times vary by location. Standard delivery is 3-5 days, express is 1-2 days.'',
         ''We have two shipping options: standard (3-5 days) and express (1-2 days). Which would you prefer?'',
         ''Standard shipping takes 3-5 business days, while express shipping takes 1-2 business days.'']\<rparr>),
    (''returns'', \<lparr>
      intent_keywords =
        [''return'', ''refund'', ''exchange'', ''cancel'', ''return policy'', ''how to return''],
      intent_responses =
        [''We offer a 30-day return policy. Items must be in original condition with packaging. Would you like me to help you start a return?'',
         ''Returns are accepted within 30 days of purchase. Please keep your receipt and original packaging.'',
         ''You can return items within 30 days. I can help you start the return process if you'd like.'',
         ''Our return policy allows returns within 30 days. Items must be in original condition.'']\<rparr>),
    (''payment'', \<lparr>
      intent_keywords =
        [''payment'', ''billing'', ''charge'', ''credit card'', ''payment method'', ''invoice'',
         ''billing issue''],
      intent_responses =
        [''We accept all major credit cards, PayPal, and bank transfers. How can I help with your payment?'',
         ''You can pay with Visa, MasterCard, American Express, PayPal, or bank transfer.'',
         ''We accept multiple payment methods including credit cards and PayPal. What payment issue can I help with?'',
         ''For payment assistance, we accept credit cards, PayPal, and bank transfers.'']\<rparr>),
    (''product_info'', \<lparr>
      intent_keywords =
        [''product'', ''specifications'', ''features'', ''size'', ''color'', ''availability'',
         ''product details''],
      intent_responses =
        [''I'd be happy to help with product information. Which product are you interested in?'',
         ''Let me get you the details on that product. What specific information do you need?'',
         ''I can provide product specifications and availability. What product are you asking about?'',
         ''I'd love to help with product details. Which product would you like to know more about?'']\<rparr>),
    (''contact'', \<lparr>
      intent_keywords =
        [''contact'', ''phone'', ''email'', ''support'', ''help'', ''speak to someone'',
         ''human agent''],
      intent_responses =
        [''You can reach our support team at support@company.com or call 1-800-SUPPORT. Our team is available 24/7!'',
         ''For immediate assistance, call us at 1-800-SUPPORT or email support@company.com.'',
         ''Our support team is available 24/7. Call 1-800-SUPPORT or email support@company.com.'',
         ''You can contact us at support@company.com or call 1-800-SUPPORT for immediate help.'']\<rparr>),
    (''account'', \<lparr>
      intent_keywords =
        [''account'', ''login'', ''password'', ''profile'', ''sign up'', ''register'',
         ''account issue''],
      intent_responses =
        [''I can help with account issues. Are you having trouble logging in or creating an account?'',
         ''For account support, please provide your email address and I'll assist you.'',
         ''I can help with account-related questions. What specific issue are you experiencing?'',
         ''Let me help you with your account. What's the problem you're facing?'']\<rparr>),
    (''complaint'', \<lparr>
      intent_keywords =
        [''complaint'', ''problem'', ''issue'', ''dissatisfied'', ''unhappy'', ''bad experience''],
      intent_responses =
        [''I'm sorry to hear about your experience. Let me help resolve this issue for you. Can you tell me more details?'',
         ''I apologize for any inconvenience. I'm here to help make things right. What happened?'',
         ''I'm sorry you're having a problem. Let me assist you in resolving this issue.'',
         ''I understand your concern. Let me help you with this issue right away.'']\<rparr>),
    (''goodbye'', \<lparr>
      intent_keywords =
        [''bye'', ''goodbye'', ''thanks'', ''thank you'', ''see you'', ''farewell''],
      intent_responses =
        [''You're welcome! Have a great day!'',
         ''Thank you for contacting us! Feel free to reach out anytime.'',
         ''Happy to help! Take care!'',
         ''You're welcome! Don't hesitate to contact us if you need anything else.'']\<rparr>)]"

record conversation =
  c_timestamp :: string
  c_session_id :: string
  c_user_input :: string
  c_intent :: string
  c_response :: string
  c_confidence :: rat
  c_response_time :: rat

text \<open>The object's fields; the entries of the \<open>analytics\<close> dict are fields of the record.\<close>

record chatbot =
  intents :: intents
  conversation_history :: "conversation list"
  total_requests :: nat
  successful_responses :: nat
  failed_responses :: nat
  intent_counts :: "(string \<times> nat) list"
  response_times :: "rat list"

definition chatbot_init :: chatbot where
  "chatbot_init = \<lparr>intents = initialize_intents, conversation_history = [], total_requests = 0,
     successful_responses = 0, failed_responses = 0, intent_counts = [], response_times = []\<rparr>"

record response =
  r_text :: string
  r_intent :: string
  r_confidence :: rat
  r_response_time :: rat
  r_timestamp :: string

text \<open>The inner loop of \<open>_find_best_intent\<close>: one point per keyword found in the text.\<close>

definition keyword_score :: "string list \<Rightarrow> string \<Rightarrow> nat" where
  "keyword_score kws user_input_lower =
     foldl (\<lambda>score keyword. if sublist keyword user_input_lower then score + 1 else score) 0 kws"

text \<open>The outer loop body: the pair is \<open>(best_match_score, best_intent)\<close>.\<close>

definition best_intent_step ::
  "string \<Rightarrow> nat \<times> string \<Rightarrow> string \<times> intent_data \<Rightarrow> nat \<times> string" where
  "best_intent_step user_input_lower best entry =
     (let score = keyword_score (intent_keywords (snd entry)) user_input_lower
      in if score > fst best then (score, fst entry) else best)"

definition find_best_intent :: "intents \<Rightarrow> string \<Rightarrow> string \<times> rat" where
  "find_best_intent its user_input =
     (let user_input_lower = lower user_input;
          best = foldl (best_intent_step user_input_lower) (0, ''fallback'') its;
          best_match_score = fst best;
          best_intent = snd best;
          confidence = (if best_match_score > 0 then min (of_nat best_match_score / 3) 1 else 0)
      in (best_intent, confidence))"

definition get_fallback_response :: "nat \<Rightarrow> exn + string" where
  "get_fallback_response pk = random_choice pk
    [''I'm sorry, I didn't quite understand that. Could you please rephrase your question?'',
     ''I'm not sure I can help with that specific question. Could you try asking in a different way?'',
     ''I don't have information about that. Let me connect you with a human agent who can help better.'',
     ''That's an interesting question! I might not have the exact answer, but I can connect you with our support team.'',
     ''I'm still learning! Could you try asking about order status, shipping, returns, or product information?'']"

definition generate_response :: "intents \<Rightarrow> nat \<Rightarrow> string \<Rightarrow> exn + string" where
  "generate_response its pk intent_name =
     (case map_of its intent_name of
        Some d \<Rightarrow> random_choice pk (intent_responses d)
      | None \<Rightarrow> get_fallback_response pk)"

definition create_response :: "env \<Rightarrow> string \<Rightarrow> string \<Rightarrow> rat \<Rightarrow> rat \<Rightarrow> response" where
  "create_response e txt intent_name conf rt =
     \<lparr>r_text = txt, r_intent = intent_name, r_confidence = conf, r_response_time = rt,
      r_timestamp = now_iso e\<rparr>"

definition record_interaction ::
  "env \<Rightarrow> chatbot \<Rightarrow> string \<Rightarrow> string \<Rightarrow> string \<Rightarrow> rat \<Rightarrow> rat \<Rightarrow> string option \<Rightarrow> chatbot" where
  "record_interaction e s user_input intent_name response_text conf rt session_id =
     s\<lparr>total_requests := total_requests s + 1,
       successful_responses := successful_responses s + 1,
       response_times := response_times s @ [rt],
       intent_counts := bump (intent_counts s) intent_name,
       conversation_history := conversation_history s @
         [\<lparr>c_timestamp = now_iso e,
           c_session_id =
             (case session_id of None \<Rightarrow> ''default''
              | Some sid \<Rightarrow> if sid = [] then ''default'' else sid),
           c_user_input = user_input, c_intent = intent_name, c_response = response_text,
           c_confidence = conf, c_response_time = rt\<rparr>]\<rparr>"

text \<open>
  The body of the \<open>try\<close> block of \<open>process_message\<close>. The only statement of it that can
  raise on a string is \<open>random.choice\<close> in \<open>_generate_response\<close>, before anything is
  recorded.
\<close>

definition process_message_body ::
  "env \<Rightarrow> chatbot \<Rightarrow> string \<Rightarrow> string option \<Rightarrow> exn + (chatbot \<times> response)" where
  "process_message_body e s user_input session_id =
     (let (intent_name, conf) = find_best_intent (intents s) user_input
      in case generate_response (intents s) (pick e) intent_name of
           Inl err \<Rightarrow> Inl err
         | Inr response_text \<Rightarrow>
             Inr (record_interaction e s user_input intent_name response_text conf (elapsed e)
                    session_id,
                  create_response e response_text intent_name conf (elapsed e)))"

definition process_message ::
  "env \<Rightarrow> chatbot \<Rightarrow> string \<Rightarrow> string option \<Rightarrow> chatbot \<times> response" where
  "process_message e s user_input session_id =
     (if strip user_input = [] then
        (s, create_response e ''Please enter a message so I can help you!'' ''empty_input'' 0 0)
      else case process_message_body e s user_input session_id of
             Inr r \<Rightarrow> r
           | Inl err \<Rightarrow>
               (s\<lparr>failed_responses := failed_responses s + 1\<rparr>,
                create_response e ''I'm sorry, I encountered an error. Please try again.''
                  ''error'' 0 0))"

record analytics_report =
  a_total_requests :: nat
  a_successful_responses :: nat
  a_failed_responses :: nat
  a_success_rate :: string
  a_average_response_time :: string
  a_intent_distribution :: "(string \<times> nat) list"
  a_recent_conversations :: "conversation list"

definition get_analytics :: "chatbot \<Rightarrow> exn + analytics_report" where
  "get_analytics s =
     (if total_requests s > 0 \<and> response_times s = [] then Inl ZeroDivisionError
      else
        let avg_response_time =
              (if total_requests s > 0
               then sum_list (response_times s) / of_nat (length (response_times s)) else 0);
            success_rate =
              (if total_requests s > 0
               then of_nat (successful_responses s) / of_nat (total_requests s) * 100 else 0)
        in Inr \<lparr>a_total_requests = total_requests s,
                a_successful_responses = successful_responses s,
                a_failed_responses = failed_responses s,
                a_success_rate = format_fixed 1 success_rate @ ''%'',
                a_average_response_time = format_fixed 2 avg_response_time @ ''s'',
                a_intent_distribution = intent_counts s,
                a_recent_conversations = last_n 10 (conversation_history s)\<rparr>)"

definition clear_history :: "chatbot \<Rightarrow> chatbot" where
  "clear_history s =
     s\<lparr>conversation_history := [], total_requests := 0, successful_responses := 0,
       failed_responses := 0, intent_counts := [], response_times := []\<rparr>"

text \<open>The calls a client makes on the object, and a run of them.\<close>

datatype call = ProcessMessage env string "string option" | ClearHistory

fun do_call :: "chatbot \<Rightarrow> call \<Rightarrow> chatbot" where
  "do_call s (ProcessMessage e user_input session_id) =
     fst (process_message e s user_input session_id)"
| "do_call s ClearHistory = clear_history s"

definition run_calls :: "chatbot \<Rightarrow> call list \<Rightarrow> chatbot" where
  "run_calls s cs = foldl do_call s cs"


section \<open>dataset\_integration.py: DatasetIntegrator\<close>

record dialog =
  d_input :: string
  d_output :: string
  d_intent :: string

definition intent_mapping :: "(string \<times> string list) list" where
  "intent_mapping = [
    (''greeting'', [''hello'', ''hi'', ''hey'', ''good morning'', ''good afternoon'', ''good evening'']),
    (''goodbye'', [''bye'', ''goodbye'', ''see you'', ''farewell'', ''take care'']),
    (''thanks'', [''thank you'', ''thanks'', ''appreciate'', ''grateful'']),
    (''order_status'', [''order'', ''status'', ''tracking'', ''shipped'', ''delivery'', ''where is my order'']),
    (''shipping'', [''shipping'', ''delivery'', ''shipping time'', ''how long'', ''when will it arrive'']),
    (''returns'', [''return'', ''refund'', ''exchange'', ''cancel'', ''return policy'']),
    (''payment'', [''payment'', ''billing'', ''charge'', ''credit card'', ''payment method'', ''invoice'']),
    (''product_info'', [''product'', ''specifications'', ''features'', ''size'', ''color'', ''availability'']),
    (''contact'', [''contact'', ''phone'', ''email'', ''support'', ''help'', ''speak to someone'']),
    (''complaint'', [''complaint'', ''problem'', ''issue'', ''unhappy'', ''dissatisfied'', ''angry''])]"

definition create_sample_dataset :: "dialog list" where
  "create_sample_dataset = [
    \<lparr>d_input = ''Hello'',
      d_output = ''Hi there! How can I help you today?'',
      d_intent = ''greeting''\<rparr>,
    \<lparr>d_input = ''Hi'',
      d_output = ''Hello! Welcome to our customer support. What can I assist you with?'',
      d_intent = ''greeting''\<rparr>,
    \<lparr>d_input = ''Good morning'',
      d_output = ''Good morning! How can I make your day better today?'',
      d_intent = ''greeting''\<rparr>,
    \<lparr>d_input = ''Hey there'',
      d_output = ''Hey! I'm here to help. What questions do you have?'',
      d_intent = ''greeting''\<rparr>,
    \<lparr>d_input = ''Where is my order?'',
      d_output = ''I can help you track your order! Please provide your order number and I'll check the status for you.'',
      d_intent = ''order_status''\<rparr>,
    \<lparr>d_input = ''Order status'',
      d_output = ''To check your order status, please provide your order number.'',
      d_intent = ''order_status''\<rparr>,
    \<lparr>d_input = ''Track my package'',
      d_output = ''I'd be happy to help you track your package. What's your order number?'',
      d_intent = ''order_status''\<rparr>,
    \<lparr>d_input = ''Is my order shipped?'',
      d_output = ''Let me check your order status. Please provide your order number.'',
      d_intent = ''order_status''\<rparr>,
    \<lparr>d_input = ''How long does shipping take?'',
      d_output = ''We offer standard shipping (3-5 business days) and express shipping (1-2 business days). Which option would you like to know more about?'',
      d_intent = ''shipping''\<rparr>,
    \<lparr>d_input = ''Shipping time'',
      d_output = ''Shipping times vary. Standard delivery is 3-5 days, express is 1-2 days.'',
      d_intent = ''shipping''\<rparr>,
    \<lparr>d_input = ''When will it arrive?'',
      d_output = ''Our shipping options are standard (3-5 days) and express (1-2 days).'',
      d_intent = ''shipping''\<rparr>,
    \<lparr>d_input = ''Delivery time'',
      d_output = ''We have two shipping options: standard (3-5 days) and express (1-2 days). Which would you prefer?'',
      d_intent = ''shipping''\<rparr>,
    \<lparr>d_input = ''I want to return this'',
      d_output = ''We offer a 30-day return policy. Items must be in original condition with packaging. Would you like me to help you start a return?'',
      d_intent = ''returns''\<rparr>,
    \<lparr>d_input = ''Return policy'',
      d_output = ''Returns are accepted within 30 days of purchase. Please keep your receipt and original packaging.'',
      d_intent = ''returns''\<rparr>,
    \<lparr>d_input = ''How do I return?'',
      d_output = ''You can return items within 30 days for a full refund. Do you need assistance with the return process?'',
      d_intent = ''returns''\<rparr>,
    \<lparr>d_input = ''Refund'',
      d_output = ''Our return policy allows returns within 30 days. Items must be in original condition.'',
      d_intent = ''returns''\<rparr>,
    \<lparr>d_input = ''What payment methods do you accept?'',
      d_output = ''We accept all major credit cards, PayPal, and bank transfers. How can I help with your payment?'',
      d_intent = ''payment''\<rparr>,
    \<lparr>d_input = ''Payment options'',
      d_output = ''You can pay with Visa, MasterCard, American Express, PayPal, or bank transfer.'',
      d_intent = ''payment''\<rparr>,
    \<lparr>d_input = ''How can I pay?'',
      d_output = ''Multiple payment methods are available, including credit cards and PayPal.'',
      d_intent = ''payment''\<rparr>,
    \<lparr>d_input = ''Billing'',
      d_output = ''I can help with billing questions. What specific payment issue can I assist with?'',
      d_intent = ''payment''\<rparr>,
    \<lparr>d_input = ''Tell me about this product'',
      d_output = ''I'd be happy to help with product information. Which product are you interested in?'',
      d_intent = ''product_info''\<rparr>,
    \<lparr>d_input = ''Product details'',
      d_output = ''Let me get you the details on that product. What specific information do you need?'',
      d_intent = ''product_info''\<rparr>,
    \<lparr>d_input = ''Specifications'',
      d_output = ''I can provide product specifications and availability. What product are you asking about?'',
      d_intent = ''product_info''\<rparr>,
    \<lparr>d_input = ''Is this in stock?'',
      d_output = ''Let me check the availability for you. Which product are you interested in?'',
      d_intent = ''product_info''\<rparr>,
    \<lparr>d_input = ''How can I contact support?'',
      d_output = ''You can reach our support team at support@company.com or call 1-800-SUPPORT. Our team is available 24/7!'',
      d_intent = ''contact''\<rparr>,
    \<lparr>d_input = ''Phone number'',
      d_output = ''For immediate assistance, call us at 1-800-SUPPORT or email support@company.com.'',
      d_intent = ''contact''\<rparr>,
    \<lparr>d_input = ''Email support'',
      d_output = ''Our support team is available 24/7. Call 1-800-SUPPORT or email support@company.com.'',
      d_intent = ''contact''\<rparr>,
    \<lparr>d_input = ''Speak to someone'',
      d_output = ''I can help you with most questions, but if you need to speak to a human agent, call 1-800-SUPPORT.'',
      d_intent = ''contact''\<rparr>,
    \<lparr>d_input = ''I have a complaint'',
      d_output = ''I'm sorry to hear you're having an issue. Please tell me more about the problem so I can help resolve it.'',
      d_intent = ''complaint''\<rparr>,
    \<lparr>d_input = ''This is terrible'',
      d_output = ''I understand your frustration. Let me help you resolve this issue. What specific problem are you experiencing?'',
      d_intent = ''complaint''\<rparr>,
    \<lparr>d_input = ''I'm not happy'',
      d_output = ''I'm sorry you're not satisfied. Please share the details of your concern so I can assist you better.'',
      d_intent = ''complaint''\<rparr>,
    \<lparr>d_input = ''This is unacceptable'',
      d_output = ''I apologize for the inconvenience. Let me help you address this issue. What happened?'',
      d_intent = ''complaint''\<rparr>,
    \<lparr>d_input = ''Thanks for your help'',
      d_output = ''You're welcome! Is there anything else I can help you with?'',
      d_intent = ''goodbye''\<rparr>,
    \<lparr>d_input = ''Thank you'',
      d_output = ''You're welcome! Feel free to reach out if you need any more assistance.'',
      d_intent = ''goodbye''\<rparr>,
    \<lparr>d_input = ''Bye'',
      d_output = ''Goodbye! Have a great day!'',
      d_intent = ''goodbye''\<rparr>,
    \<lparr>d_input = ''See you later'',
      d_output = ''See you later! Take care!'',
      d_intent = ''goodbye''\<rparr>]"

definition generate_variations :: "string \<Rightarrow> string \<Rightarrow> string list" where
  "generate_variations base_input intent_name =
     [base_input] @
     (if intent_name = ''greeting'' then
        [base_input @ '' there'',
         base_input @ ''!'',
         ''Hey '' @ lower base_input,
         ''Good morning '' @ lower base_input]
      else if intent_name = ''order_status'' then
        [''Where is '' @ base_input,
         ''Status of '' @ base_input,
         ''Track '' @ base_input,
         ''Check '' @ base_input]
      else if intent_name = ''shipping'' then
        [''How long for '' @ base_input,
         ''When will '' @ base_input @ '' arrive'',
         ''Delivery time for '' @ base_input,
         ''Shipping duration for '' @ base_input]
      else [])"


section \<open>openai\_chatbot.py: OpenAIChatbot\<close>

text \<open>
  The remote completion call is outside the program: \<open>generate\<close> stands for it, given
  the user message, the context and the last six exchanges, and returning the content of
  the first choice or the exception the call raised.
\<close>

record exchange =
  x_user :: string
  x_assistant :: string
  x_timestamp :: string

type_synonym generate = "string \<Rightarrow> string \<Rightarrow> exchange list \<Rightarrow> exn + string"

text \<open>\<open>client\<close> is \<open>None\<close> or a client object: only its presence is modelled.\<close>

record openai_chatbot =
  client :: bool
  oa_conversation_history :: "exchange list"

record openai_response =
  o_text :: string
  o_intent :: string
  o_confidence :: rat
  o_response_time :: rat
  o_model :: string

definition oa_get_fallback_response :: "nat \<Rightarrow> exn + openai_response" where
  "oa_get_fallback_response pk =
     (case random_choice pk
        [''I'm here to help! I can assist with order status, shipping, returns, payment, and product information.'',
         ''I'd be happy to help you with your inquiry. What specific information do you need?'',
         ''I can help with various customer support topics. How can I assist you today?'',
         ''I'm ready to help! Please let me know what you need assistance with.''] of
        Inl err \<Rightarrow> Inl err
      | Inr txt \<Rightarrow>
          Inr \<lparr>o_text = txt, o_intent = ''fallback'', o_confidence = 0.5, o_response_time = 0,
               o_model = ''fallback''\<rparr>)"

definition get_openai_response ::
  "generate \<Rightarrow> env \<Rightarrow> openai_chatbot \<Rightarrow> string \<Rightarrow> exn + (openai_chatbot \<times> openai_response)" where
  "get_openai_response gen e oc user_message =
     (if \<not> client oc then map_sum id (Pair oc) (oa_get_fallback_response (pick e))
      else case gen user_message [] (last_n 6 (oa_conversation_history oc)) of
             Inr content \<Rightarrow>
               (let bot_response = strip content
                in Inr (oc\<lparr>oa_conversation_history := oa_conversation_history oc @
                            [\<lparr>x_user = user_message, x_assistant = bot_response,
                              x_timestamp = now_iso e\<rparr>]\<rparr>,
                        \<lparr>o_text = bot_response, o_intent = ''openai_response'',
                         o_confidence = 0.95, o_response_time = 0,
                         o_model = ''gpt-3.5-turbo''\<rparr>))
           | Inl err \<Rightarrow> map_sum id (Pair oc) (oa_get_fallback_response (pick e)))"


section \<open>enhanced\_chatbot\_with\_dataset.py: EnhancedChatbotWithDataset\<close>

record example =
  ex_input :: string
  ex_output :: string
  ex_variations :: "string list"

type_synonym enhanced_responses = "(string \<times> example list) list"

text \<open>\<open>if intent not in d: d[intent] = []\<close> followed by \<open>d[intent].append(ex)\<close>.\<close>

fun add_example :: "enhanced_responses \<Rightarrow> string \<Rightarrow> example \<Rightarrow> enhanced_responses" where
  "add_example [] k ex = [(k, [ex])]"
| "add_example ((k', exs) # d) k ex =
     (if k' = k then (k', exs @ [ex]) # d else (k', exs) # add_example d k ex)"

definition load_enhanced_responses :: "dialog list \<Rightarrow> enhanced_responses" where
  "load_enhanced_responses training =
     foldl (\<lambda>er d. add_example er (d_intent d)
               \<lparr>ex_input = d_input d, ex_output = d_output d,
                ex_variations = generate_variations (d_input d) (d_intent d)\<rparr>)
       [] training"

text \<open>\<open>(best_intent, best_confidence, best_response)\<close>; \<open>best_intent\<close> starts as \<open>None\<close>.\<close>

type_synonym best = "string option \<times> rat \<times> string"

text \<open>
  The assignment block under \<open>if confidence > best_confidence\<close>, the same in the three
  tiers.
\<close>

definition update_best :: "string \<Rightarrow> string \<Rightarrow> rat \<Rightarrow> best \<Rightarrow> best" where
  "update_best intent_name output conf best =
     (if conf > fst (snd best) then (Some intent_name, conf, output) else best)"

text \<open>The body of the inner loop of \<open>_find_best_intent_match\<close>, for one example.\<close>

definition match_example ::
  "(string \<times> string list) list \<Rightarrow> string \<Rightarrow> string \<Rightarrow> best \<Rightarrow> example \<Rightarrow> best" where
  "match_example mapping user_input intent_name best ex =
     (let b1 = (if sublist user_input (lower (ex_input ex))
                then update_best intent_name (ex_output ex) 0.9 best else best);
          b2 = foldl (\<lambda>b variation.
                        if sublist user_input (lower variation)
                        then update_best intent_name (ex_output ex) 0.8 b else b)
                 b1 (ex_variations ex);
          kws = (case map_of mapping intent_name of Some ks \<Rightarrow> ks | None \<Rightarrow> []);
          keyword_matches = length (filter (\<lambda>keyword. sublist keyword user_input) kws)
      in if keyword_matches > 0
         then update_best intent_name (ex_output ex) (min 0.7 (of_nat keyword_matches * 0.2)) b2
         else b2)"

definition find_best_intent_match ::
  "enhanced_responses \<Rightarrow> (string \<times> string list) list \<Rightarrow> string \<Rightarrow> best" where
  "find_best_intent_match er mapping user_input =
     foldl (\<lambda>best (intent_name, examples).
              foldl (match_example mapping user_input intent_name) best examples)
       (None, 0, []) er"

record history_entry =
  h_timestamp :: string
  h_user_id :: "string option"
  h_user_input :: string
  h_bot_response :: string
  h_source :: string
  h_confidence :: rat

record enhanced =
  core_chatbot :: chatbot
  openai_chatbot :: openai_chatbot
  training_data :: "dialog list"
  enhanced_responses :: enhanced_responses
  e_total_requests :: nat
  openai_requests :: nat
  core_requests :: nat
  e_intent_distribution :: "(string \<times> nat) list"
  e_response_times :: "rat list"
  e_conversation_history :: "history_entry list"

text \<open>
  The constructor; whether the OpenAI client could be built from the configured key is
  the parameter.
\<close>

definition enhanced_init :: "bool \<Rightarrow> enhanced" where
  "enhanced_init configured =
     \<lparr>core_chatbot = chatbot_init,
      openai_chatbot = \<lparr>client = configured, oa_conversation_history = []\<rparr>,
      training_data = create_sample_dataset,
      enhanced_responses = load_enhanced_responses create_sample_dataset,
      e_total_requests = 0, openai_requests = 0, core_requests = 0,
      e_intent_distribution = [], e_response_times = [], e_conversation_history = []\<rparr>"

text \<open>The dict that \<open>_add_to_history\<close> appends.\<close>

definition history_record ::
  "env \<Rightarrow> string \<Rightarrow> string \<Rightarrow> string \<Rightarrow> rat \<Rightarrow> string option \<Rightarrow> history_entry" where
  "history_record e user_input bot_response source conf user_id =
     \<lparr>h_timestamp = now_iso e, h_user_id = user_id, h_user_input = user_input,
      h_bot_response = bot_response, h_source = source, h_confidence = conf\<rparr>"

definition add_to_history ::
  "env \<Rightarrow> enhanced \<Rightarrow> string \<Rightarrow> string \<Rightarrow> string \<Rightarrow> rat \<Rightarrow> string option \<Rightarrow> enhanced" where
  "add_to_history e s user_input bot_response source conf user_id =
     (let h = e_conversation_history s @
                [history_record e user_input bot_response source conf user_id]
      in s\<lparr>e_conversation_history := (if length h > 100 then last_n 100 h else h)\<rparr>)"

text \<open>
  \<open>if best_match:\<close> tests a tuple: a tuple is true exactly when its length is not
  zero, and \<open>_find_best_intent_match\<close> returns a tuple of three components.
\<close>

definition tuple_len :: "best \<Rightarrow> nat" where
  "tuple_len t = 3"

definition truthy :: "best \<Rightarrow> bool" where
  "truthy t = (tuple_len t \<noteq> 0)"

text \<open>The dict \<open>{'text': .., 'intent': .., 'confidence': ..}\<close> both branches return.\<close>

record core_result =
  k_text :: string
  k_intent :: "string option"
  k_confidence :: rat

definition process_with_enhanced_dataset ::
  "env \<Rightarrow> enhanced \<Rightarrow> string \<Rightarrow> enhanced \<times> core_result" where
  "process_with_enhanced_dataset e s user_input =
     (let user_input_lower = lower user_input;
          best_match = find_best_intent_match (enhanced_responses s) intent_mapping
                         user_input_lower
      in if truthy best_match then
           (case best_match of (intent_name, conf, response_text) \<Rightarrow>
              (s, \<lparr>k_text = response_text, k_intent = intent_name, k_confidence = conf\<rparr>))
         else
           (case process_message e (core_chatbot s) user_input None of (core', r) \<Rightarrow>
              (s\<lparr>core_chatbot := core'\<rparr>,
               \<lparr>k_text = r_text r, k_intent = Some (r_intent r),
                k_confidence = r_confidence r\<rparr>)))"

record result =
  res_text :: string
  res_intent :: "string option"
  res_confidence :: rat
  res_response_time :: rat
  res_source :: string
  res_model :: string

text \<open>The \<open>try\<close> block of \<open>process_message\<close>: the generative attempt.\<close>

definition openai_attempt ::
  "generate \<Rightarrow> env \<Rightarrow> enhanced \<Rightarrow> string \<Rightarrow> string option \<Rightarrow> exn + (enhanced \<times> result)" where
  "openai_attempt gen e s user_input user_id =
     (case get_openai_response gen e (openai_chatbot s) user_input of
        Inl err \<Rightarrow> Inl err
      | Inr (oc', resp) \<Rightarrow>
          (let s1 = s\<lparr>openai_chatbot := oc', openai_requests := openai_requests s + 1\<rparr>;
               s2 = add_to_history e s1 user_input (o_text resp) ''openai'' (o_confidence resp)
                      user_id;
               s3 = s2\<lparr>e_response_times := e_response_times s2 @ [elapsed e]\<rparr>
           in Inr (s3, \<lparr>res_text = o_text resp, res_intent = Some (o_intent resp),
                        res_confidence = o_confidence resp, res_response_time = elapsed e,
                        res_source = ''openai'', res_model = o_model resp\<rparr>)))"

text \<open>The rest of \<open>process_message\<close>: the corpus-enhanced path.\<close>

definition core_path ::
  "env \<Rightarrow> enhanced \<Rightarrow> string \<Rightarrow> string option \<Rightarrow> enhanced \<times> result" where
  "core_path e s user_input user_id =
     (case process_with_enhanced_dataset e s user_input of (s0, resp) \<Rightarrow>
        (let s1 = s0\<lparr>core_requests := core_requests s0 + 1\<rparr>;
             s2 = add_to_history e s1 user_input (k_text resp) ''core'' (k_confidence resp)
                    user_id;
             s3 = s2\<lparr>e_response_times := e_response_times s2 @ [elapsed e]\<rparr>
         in (s3, \<lparr>res_text = k_text resp, res_intent = k_intent resp,
                  res_confidence = k_confidence resp, res_response_time = elapsed e,
                  res_source = ''core_enhanced'', res_model = ''dataset_trained''\<rparr>)))"

definition enhanced_process_message ::
  "generate \<Rightarrow> env \<Rightarrow> enhanced \<Rightarrow> string \<Rightarrow> string option \<Rightarrow> bool \<Rightarrow> enhanced \<times> result" where
  "enhanced_process_message gen e s user_input user_id use_openai =
     (let s1 = s\<lparr>e_total_requests := e_total_requests s + 1\<rparr>
      in if use_openai \<and> client (openai_chatbot s1) then
           (case openai_attempt gen e s1 user_input user_id of
              Inr r \<Rightarrow> r
            | Inl err \<Rightarrow> core_path e s1 user_input user_id)
         else core_path e s1 user_input user_id)"

text \<open>One request to the enhanced chatbot, and a run of requests.\<close>

record request =
  q_env :: env
  q_user_input :: string
  q_user_id :: "string option"
  q_use_openai :: bool

definition do_request :: "generate \<Rightarrow> enhanced \<Rightarrow> request \<Rightarrow> enhanced" where
  "do_request gen s q =
     fst (enhanced_process_message gen (q_env q) s (q_user_input q) (q_user_id q)
            (q_use_openai q))"

definition run_requests :: "generate \<Rightarrow> enhanced \<Rightarrow> request list \<Rightarrow> enhanced" where
  "run_requests gen s qs = foldl (do_request gen) s qs"



section \<open>Notions used to state the properties\<close>

text \<open>
  How many keyword phrases of a catalog entry occur in the lowered input: the count the
  Keyword Classifier ranks intents by.
\<close>

definition keyword_hits :: "string \<Rightarrow> string \<times> intent_data \<Rightarrow> nat" where
  "keyword_hits user_input entry =
     length (filter (\<lambda>k. sublist k (lower user_input)) (intent_keywords (snd entry)))"

text \<open>
  The three tiers of the Corpus-Enhanced Matcher as the specification words them, each
  with its confidence, \<open>0\<close> when the tier does not apply; the confidence of an example
  is the best of its tiers. \<open>corpus_entries\<close> lists the examples in iteration order,
  each with its intent.
\<close>

definition exact_tier :: "string \<Rightarrow> example \<Rightarrow> rat" where
  "exact_tier user_input ex = (if sublist user_input (lower (ex_input ex)) then 0.9 else 0)"

definition variation_tier :: "string \<Rightarrow> example \<Rightarrow> rat" where
  "variation_tier user_input ex =
     (if \<exists>v\<in>set (ex_variations ex). sublist user_input (lower v) then 0.8 else 0)"

definition keyword_tier :: "(string \<times> string list) list \<Rightarrow> string \<Rightarrow> string \<Rightarrow> rat" where
  "keyword_tier mapping user_input intent_name =
     min 0.7 (of_nat (length (filter (\<lambda>k. sublist k user_input)
                (case map_of mapping intent_name of Some ks \<Rightarrow> ks | None \<Rightarrow> []))) * 0.2)"

definition example_confidence ::
  "(string \<times> string list) list \<Rightarrow> string \<Rightarrow> string \<times> example \<Rightarrow> rat" where
  "example_confidence mapping user_input entry =
     max (exact_tier user_input (snd entry))
       (max (variation_tier user_input (snd entry))
          (keyword_tier mapping user_input (fst entry)))"

definition corpus_entries :: "enhanced_responses \<Rightarrow> (string \<times> example) list" where
  "corpus_entries er =
     concat (map (\<lambda>(intent_name, examples). map (Pair intent_name) examples) er)"

text \<open>A run of \<open>_add_to_history\<close> calls, each given by its arguments.\<close>

record history_call =
  hc_env :: env
  hc_user_input :: string
  hc_bot_response :: string
  hc_source :: string
  hc_confidence :: rat
  hc_user_id :: "string option"

definition add_call :: "enhanced \<Rightarrow> history_call \<Rightarrow> enhanced" where
  "add_call s c =
     add_to_history (hc_env c) s (hc_user_input c) (hc_bot_response c) (hc_source c)
       (hc_confidence c) (hc_user_id c)"

definition record_of_call :: "history_call \<Rightarrow> history_entry" where
  "record_of_call c =
     history_record (hc_env c) (hc_user_input c) (hc_bot_response c) (hc_source c)
       (hc_confidence c) (hc_user_id c)"

text \<open>The generative call that raises on every invocation.\<close>

definition always_failing :: generate where
  "always_failing user_message context history = Inl ApiError"

text \<open>What every run of calls on the baseline chatbot keeps true.\<close>

definition baseline_inv :: "chatbot \<Rightarrow> bool" where
  "baseline_inv s \<longleftrightarrow>
     total_requests s = successful_responses s \<and> length (response_times s) = total_requests s"

definition catalog_inv :: "chatbot \<Rightarrow> bool" where
  "catalog_inv s \<longleftrightarrow>
     intents s = initialize_intents \<and>
     total_requests s = successful_responses s + failed_responses s"

text \<open>The corpus the constructor loads, and a fixed reading of the outside world.\<close>

definition corpus :: enhanced_responses where
  "corpus = load_enhanced_responses create_sample_dataset"

definition env0 :: env where
  "env0 = \<lparr>pick = 0, now_iso = ''2025-01-01T00:00:00'', elapsed = 0\<rparr>"

text \<open>Sample runs: numbered history records, numbered messages, a catalog entry without
  responses.\<close>

definition numbered_call :: "nat \<Rightarrow> history_call" where
  "numbered_call i =
     \<lparr>hc_env = env0, hc_user_input = show_nat i, hc_bot_response = ''ok'',
      hc_source = ''core'', hc_confidence = 0, hc_user_id = None\<rparr>"

definition numbered_messages :: "call list" where
  "numbered_messages = map (\<lambda>i. ProcessMessage env0 (''order '' @ show_nat i) None) [0..<12]"

definition malformed_catalog :: intents where
  "malformed_catalog = [(''empty'', \<lparr>intent_keywords = [''a''], intent_responses = []\<rparr>)]"


section \<open>Loops that keep the first maximum\<close>

lemma foldl_strict_max:
  fixes key :: "'b \<Rightarrow> 'k::linorder" and sc :: "'a \<Rightarrow> 'k"
  assumes step: "\<And>b x. P b \<Longrightarrow> step b x = (if key b < sc x then mk x else b)"
      and key: "\<And>x. key (mk x) = sc x"
      and P_mk: "\<And>x. P (mk x)"
      and P_b: "P b"
  shows "((\<forall>x\<in>set xs. sc x \<le> key b) \<and> foldl step b xs = b) \<or>
         (\<exists>pre y post. xs = pre @ y # post \<and> key b < sc y \<and>
            (\<forall>x\<in>set pre. sc x < sc y) \<and> (\<forall>x\<in>set post. sc x \<le> sc y) \<and>
            foldl step b xs = mk y)"
proof (induction xs rule: rev_induct)
  case Nil
  then show ?case by simp
next
  case (snoc x xs)
  from snoc.IH show ?case
  proof (elim disjE conjE exE)
    assume le: "\<forall>x\<in>set xs. sc x \<le> key b" and eq: "foldl step b xs = b"
    show ?thesis
    proof (cases "key b < sc x")
      case True
      have "foldl step b (xs @ [x]) = mk x"
        using eq True step [OF P_b] by simp
      moreover have "\<forall>z\<in>set xs. sc z < sc x"
        using le True by auto
      ultimately have "\<exists>pre y post. xs @ [x] = pre @ y # post \<and> key b < sc y \<and>
            (\<forall>x\<in>set pre. sc x < sc y) \<and> (\<forall>x\<in>set post. sc x \<le> sc y) \<and>
            foldl step b (xs @ [x]) = mk y"
        using True by (intro exI [of _ xs] exI [of _ x] exI [of _ "[]"]) simp
      then show ?thesis by blast
    next
      case False
      then have "foldl step b (xs @ [x]) = b"
        using eq step [OF P_b] by simp
      moreover have "\<forall>z\<in>set (xs @ [x]). sc z \<le> key b"
        using le False by auto
      ultimately show ?thesis by blast
    qed
  next
    fix pre y post
    assume xs: "xs = pre @ y # post" and gt: "key b < sc y"
      and pre: "\<forall>x\<in>set pre. sc x < sc y" and post: "\<forall>x\<in>set post. sc x \<le> sc y"
      and eq: "foldl step b xs = mk y"
    show ?thesis
    proof (cases "sc y < sc x")
      case True
      have "foldl step b (xs @ [x]) = mk x"
        using eq True step [OF P_mk] key by simp
      moreover have "\<forall>z\<in>set xs. sc z < sc x"
        using xs pre post True by auto
      moreover have "key b < sc x"
        using gt True by simp
      ultimately have "\<exists>pre y post. xs @ [x] = pre @ y # post \<and> key b < sc y \<and>
            (\<forall>x\<in>set pre. sc x < sc y) \<and> (\<forall>x\<in>set post. sc x \<le> sc y) \<and>
            foldl step b (xs @ [x]) = mk y"
        by (intro exI [of _ xs] exI [of _ x] exI [of _ "[]"]) simp
      then show ?thesis by blast
    next
      case False
      have "foldl step b (xs @ [x]) = mk y"
        using eq False step [OF P_mk] key by simp
      moreover have "xs @ [x] = pre @ y # (post @ [x])"
        using xs by simp
      moreover have "\<forall>z\<in>set (post @ [x]). sc z \<le> sc y"
        using post False by auto
      ultimately have "\<exists>pre y post. xs @ [x] = pre @ y # post \<and> key b < sc y \<and>
            (\<forall>x\<in>set pre. sc x < sc y) \<and> (\<forall>x\<in>set post. sc x \<le> sc y) \<and>
            foldl step b (xs @ [x]) = mk y"
        using gt pre by (intro exI [of _ pre] exI [of _ y] exI [of _ "post @ [x]"]) simp
      then show ?thesis by blast
    qed
  qed
qed

lemma keyword_score_count:
  "keyword_score kws u = length (filter (\<lambda>k. sublist k u) kws)"
proof -
  have "foldl (\<lambda>score keyword. if sublist keyword u then score + 1 else score) n kws
        = n + length (filter (\<lambda>k. sublist k u) kws)" for n :: nat
    by (induction kws arbitrary: n) auto
  then show ?thesis by (simp add: keyword_score_def)
qed


section \<open>Properties\<close>

subsection \<open>The Keyword Classifier\<close>

lemma best_intent_fold:
  "((\<forall>x\<in>set its. keyword_hits u x \<le> 0) \<and>
      foldl (best_intent_step (lower u)) (0, ''fallback'') its = (0, ''fallback'')) \<or>
   (\<exists>pre y post. its = pre @ y # post \<and> 0 < keyword_hits u y \<and>
      (\<forall>x\<in>set pre. keyword_hits u x < keyword_hits u y) \<and>
      (\<forall>x\<in>set post. keyword_hits u x \<le> keyword_hits u y) \<and>
      foldl (best_intent_step (lower u)) (0, ''fallback'') its = (keyword_hits u y, fst y))"
  using foldl_strict_max [where step = "best_intent_step (lower u)" and key = fst
      and sc = "keyword_hits u" and mk = "\<lambda>y. (keyword_hits u y, fst y)"
      and P = "\<lambda>_. True" and b = "(0, ''fallback'')" and xs = its]
  by (simp add: best_intent_step_def keyword_hits_def keyword_score_count Let_def)

text \<open>
  Claim C5. \<open>_find_best_intent\<close> lowercases the input and counts, for each intent of the
  catalog, the keyword phrases that occur in the lowered text. When no intent has a hit
  the result is the sentinel \<open>fallback\<close> with confidence \<open>0\<close>. Otherwise the catalog
  splits around the returned intent: every intent before it has strictly fewer hits and
  every intent after it has at most as many, so the highest count wins and the first
  such intent wins a tie; the confidence is \<open>min (count / 3) 1\<close>, which is \<open>1/3\<close> for
  one hit and \<open>1\<close> from three hits on. The function is total: it returns a result for
  every catalog and every input.
\<close>

theorem find_best_intent_first_highest:
  "((\<forall>e\<in>set its. keyword_hits u e = 0) \<longrightarrow> find_best_intent its u = (''fallback'', 0)) \<and>
   ((\<exists>e\<in>set its. 0 < keyword_hits u e) \<longrightarrow>
      (\<exists>pre e post. its = pre @ e # post \<and> 0 < keyword_hits u e \<and>
         (\<forall>x\<in>set pre. keyword_hits u x < keyword_hits u e) \<and>
         (\<forall>x\<in>set post. keyword_hits u x \<le> keyword_hits u e) \<and>
         find_best_intent its u = (fst e, min (of_nat (keyword_hits u e) / 3) 1) \<and>
         (keyword_hits u e = 1 \<longrightarrow> snd (find_best_intent its u) = 1 / 3) \<and>
         (3 \<le> keyword_hits u e \<longrightarrow> snd (find_best_intent its u) = 1)))"
proof (intro conjI impI)
  assume "\<forall>e\<in>set its. keyword_hits u e = 0"
  with best_intent_fold [of its u]
  have "foldl (best_intent_step (lower u)) (0, ''fallback'') its = (0, ''fallback'')"
    by fastforce
  then show "find_best_intent its u = (''fallback'', 0)"
    by (simp add: find_best_intent_def)
next
  assume "\<exists>e\<in>set its. 0 < keyword_hits u e"
  with best_intent_fold [of its u]
  obtain pre y post where its: "its = pre @ y # post" and pos: "0 < keyword_hits u y"
    and pre: "\<forall>x\<in>set pre. keyword_hits u x < keyword_hits u y"
    and post: "\<forall>x\<in>set post. keyword_hits u x \<le> keyword_hits u y"
    and fold: "foldl (best_intent_step (lower u)) (0, ''fallback'') its = (keyword_hits u y, fst y)"
    by fastforce
  from fold pos
  have res: "find_best_intent its u = (fst y, min (of_nat (keyword_hits u y) / 3) 1)"
    by (simp add: find_best_intent_def)
  have one: "keyword_hits u y = 1 \<longrightarrow> snd (find_best_intent its u) = 1 / 3"
    using res by simp
  have three: "3 \<le> keyword_hits u y \<longrightarrow> snd (find_best_intent its u) = 1"
    using res by (simp add: min_def)
  from its pos pre post res one three
  show "\<exists>pre e post. its = pre @ e # post \<and> 0 < keyword_hits u e \<and>
         (\<forall>x\<in>set pre. keyword_hits u x < keyword_hits u e) \<and>
         (\<forall>x\<in>set post. keyword_hits u x \<le> keyword_hits u e) \<and>
         find_best_intent its u = (fst e, min (of_nat (keyword_hits u e) / 3) 1) \<and>
         (keyword_hits u e = 1 \<longrightarrow> snd (find_best_intent its u) = 1 / 3) \<and>
         (3 \<le> keyword_hits u e \<longrightarrow> snd (find_best_intent its u) = 1)"
    by blast
qed

theorem find_best_intent_first_highest_witness:
  "find_best_intent initialize_intents ''What are your opening hours?'' = (''fallback'', 0) \<and>
   (\<exists>e\<in>set initialize_intents. 0 < keyword_hits ''Hello'' e) \<and>
   (\<exists>pre e post. initialize_intents = pre @ e # post \<and> 0 < keyword_hits ''Hello'' e \<and>
      (\<forall>x\<in>set pre. keyword_hits ''Hello'' x < keyword_hits ''Hello'' e) \<and>
      (\<forall>x\<in>set post. keyword_hits ''Hello'' x \<le> keyword_hits ''Hello'' e) \<and>
      find_best_intent initialize_intents ''Hello'' =
        (fst e, min (of_nat (keyword_hits ''Hello'' e) / 3) 1)) \<and>
   find_best_intent initialize_intents ''Hello'' = (''greeting'', 1 / 3) \<and>
   find_best_intent initialize_intents ''delivery'' = (''order_status'', 1 / 3) \<and>
   find_best_intent initialize_intents ''Where is my order? Track my order status''
     = (''order_status'', 1)"
proof -
  have none: "\<forall>e\<in>set initialize_intents. keyword_hits ''What are your opening hours?'' e = 0"
    by code_simp
  have some: "\<exists>e\<in>set initialize_intents. 0 < keyword_hits ''Hello'' e"
    by code_simp
  have one: "find_best_intent initialize_intents ''Hello'' = (''greeting'', 1 / 3)"
    by code_simp
  have tie: "find_best_intent initialize_intents ''delivery'' = (''order_status'', 1 / 3)"
    by code_simp
  have many: "find_best_intent initialize_intents ''Where is my order? Track my order status''
     = (''order_status'', 1)"
    by code_simp
  show ?thesis
    using none some one tie many
      find_best_intent_first_highest [of initialize_intents "''What are your opening hours?''"]
      find_best_intent_first_highest [of initialize_intents "''Hello''"]
    by blast
qed


subsection \<open>The Corpus-Enhanced Matcher\<close>

lemma keyword_tier_bounds: "0 \<le> keyword_tier m u i" "keyword_tier m u i \<le> 0.7"
  by (simp_all add: keyword_tier_def)

lemma keyword_tier_pos:
  "0 < keyword_tier m u i \<longleftrightarrow>
   0 < length (filter (\<lambda>k. sublist k u) (case map_of m i of Some ks \<Rightarrow> ks | None \<Rightarrow> []))"
proof -
  have "0 < min (0.7::rat) (of_nat n * 0.2) \<longleftrightarrow> 0 < n" for n :: nat
    by (cases n) (simp_all add: min_def)
  then show ?thesis
    unfolding keyword_tier_def by blast
qed

lemma example_confidence_nonneg: "0 \<le> example_confidence m u x"
  using keyword_tier_bounds(1) [of m u "fst x"]
  by (simp add: example_confidence_def max_def)

lemma update_best_zero: "0 \<le> fst (snd b) \<Longrightarrow> update_best i out 0 b = b"
  by (simp add: update_best_def)

lemma update_best_twice:
  "update_best i out c2 (update_best i out c1 b) = update_best i out (max c1 c2) b"
  by (auto simp: update_best_def max_def)

lemma update_best_key: "0 \<le> fst (snd b) \<Longrightarrow> 0 \<le> fst (snd (update_best i out c b))"
  by (simp add: update_best_def)

lemma variation_loop:
  "foldl (\<lambda>b v. if Q v then update_best i out c b else b) b vs =
     (if \<exists>v\<in>set vs. Q v then update_best i out c b else b)"
proof (induction vs arbitrary: b)
  case Nil
  then show ?case by simp
next
  case (Cons v vs)
  show ?case by (simp add: Cons.IH update_best_twice)
qed

lemma match_example_strict:
  assumes b: "0 \<le> fst (snd b)"
  shows "match_example m u i b ex =
     (if fst (snd b) < example_confidence m u (i, ex)
      then (Some i, example_confidence m u (i, ex), ex_output ex) else b)"
proof -
  define b1 where "b1 = (if sublist u (lower (ex_input ex))
                then update_best i (ex_output ex) 0.9 b else b)"
  define b2 where "b2 = foldl (\<lambda>b variation.
                        if sublist u (lower variation)
                        then update_best i (ex_output ex) 0.8 b else b)
                 b1 (ex_variations ex)"
  have b1: "b1 = update_best i (ex_output ex) (exact_tier u ex) b"
    using b by (simp add: b1_def exact_tier_def update_best_zero)
  have b1_key: "0 \<le> fst (snd b1)"
    unfolding b1 using b by (rule update_best_key)
  have b2: "b2 = update_best i (ex_output ex) (variation_tier u ex) b1"
    unfolding b2_def variation_loop using b1_key
    by (simp add: variation_tier_def update_best_zero)
  have b2_key: "0 \<le> fst (snd b2)"
    unfolding b2 using b1_key by (rule update_best_key)
  have "match_example m u i b ex =
          (if 0 < keyword_tier m u i
           then update_best i (ex_output ex) (keyword_tier m u i) b2 else b2)"
    unfolding keyword_tier_pos
    by (simp add: match_example_def Let_def b1_def b2_def keyword_tier_def)
  also have "\<dots> = update_best i (ex_output ex) (keyword_tier m u i) b2"
    using keyword_tier_bounds(1) [of m u i] b2_key
    by (cases "0 < keyword_tier m u i") (simp_all add: update_best_zero)
  also have "\<dots> = update_best i (ex_output ex) (example_confidence m u (i, ex)) b"
    unfolding b2 b1 update_best_twice by (simp add: example_confidence_def max.assoc)
  finally show ?thesis
    by (simp add: update_best_def)
qed

lemma nested_loops:
  "foldl (\<lambda>best (intent_name, examples). foldl (f intent_name) best examples) b er =
   foldl (\<lambda>best entry. f (fst entry) best (snd entry)) b (corpus_entries er)"
proof (induction er arbitrary: b)
  case Nil
  then show ?case by (simp add: corpus_entries_def)
next
  case (Cons p er)
  obtain i exs where p: "p = (i, exs)" by (cases p)
  have inner: "foldl (\<lambda>best entry. f (fst entry) best (snd entry)) b (map (Pair i) exs)
                = foldl (f i) b exs" for b
    by (induction exs arbitrary: b) simp_all
  have "corpus_entries (p # er) = map (Pair i) exs @ corpus_entries er"
    by (simp add: corpus_entries_def p)
  then show ?case
    using Cons.IH by (simp add: p inner)
qed

lemma best_match_fold:
  "((\<forall>x\<in>set (corpus_entries er). example_confidence m u x \<le> 0) \<and>
      find_best_intent_match er m u = (None, 0, [])) \<or>
   (\<exists>pre x post. corpus_entries er = pre @ x # post \<and> 0 < example_confidence m u x \<and>
      (\<forall>y\<in>set pre. example_confidence m u y < example_confidence m u x) \<and>
      (\<forall>y\<in>set post. example_confidence m u y \<le> example_confidence m u x) \<and>
      find_best_intent_match er m u =
        (Some (fst x), example_confidence m u x, ex_output (snd x)))"
proof -
  have fold: "find_best_intent_match er m u =
      foldl (\<lambda>best entry. match_example m u (fst entry) best (snd entry)) (None, 0, [])
        (corpus_entries er)"
    unfolding find_best_intent_match_def by (rule nested_loops)
  show ?thesis
    unfolding fold
    using foldl_strict_max [where step = "\<lambda>best entry. match_example m u (fst entry) best (snd entry)"
      and key = "\<lambda>b. fst (snd b)" and sc = "example_confidence m u"
      and mk = "\<lambda>x. (Some (fst x), example_confidence m u x, ex_output (snd x))"
      and P = "\<lambda>b. 0 \<le> fst (snd b)" and b = "(None, 0, [])" and xs = "corpus_entries er"]
    by (simp add: match_example_strict example_confidence_nonneg)
qed


lemma example_confidence_tiers:
  "example_confidence m u x =
     (if sublist u (lower (ex_input (snd x))) then 0.9
      else if \<exists>v\<in>set (ex_variations (snd x)). sublist u (lower v) then 0.8
      else keyword_tier m u (fst x))"
  using keyword_tier_bounds [of m u "fst x"]
  by (simp add: example_confidence_def exact_tier_def variation_tier_def max_def)

text \<open>
  Claim C4. \<open>_find_best_intent_match\<close> gives every corpus example the best of its three
  tiers: \<open>0.9\<close> when the input occurs in the lowered example text, \<open>0.8\<close> when it
  occurs in a lowered variation, \<open>min 0.7 (hits * 0.2)\<close> for the keyword hits of the
  example's intent; so an exact match outranks a variation-only match, which outranks a
  keyword-only match. Over the corpus in iteration order the best candidate is replaced
  only by a strictly greater confidence: when no example scores the result is the
  initial triple (no intent, confidence \<open>0\<close>, empty text), otherwise the corpus splits
  around the returned example, with every earlier example strictly below its confidence
  and every later one at most equal to it.
\<close>

theorem find_best_intent_match_tiers:
  "((\<forall>x\<in>set (corpus_entries er). example_confidence m u x = 0) \<longrightarrow>
      find_best_intent_match er m u = (None, 0, [])) \<and>
   ((\<exists>x\<in>set (corpus_entries er). 0 < example_confidence m u x) \<longrightarrow>
      (\<exists>pre x post. corpus_entries er = pre @ x # post \<and> 0 < example_confidence m u x \<and>
         (\<forall>y\<in>set pre. example_confidence m u y < example_confidence m u x) \<and>
         (\<forall>y\<in>set post. example_confidence m u y \<le> example_confidence m u x) \<and>
         find_best_intent_match er m u =
           (Some (fst x), example_confidence m u x, ex_output (snd x)))) \<and>
   example_confidence m u entry =
     (if sublist u (lower (ex_input (snd entry))) then 0.9
      else if \<exists>v\<in>set (ex_variations (snd entry)). sublist u (lower v) then 0.8
      else keyword_tier m u (fst entry)) \<and>
   keyword_tier m u (fst entry) \<le> 0.7"
proof (intro conjI impI)
  assume "\<forall>x\<in>set (corpus_entries er). example_confidence m u x = 0"
  with best_match_fold [of er m u]
  show "find_best_intent_match er m u = (None, 0, [])"
    by fastforce
next
  assume "\<exists>x\<in>set (corpus_entries er). 0 < example_confidence m u x"
  with best_match_fold [of er m u]
  show "\<exists>pre x post. corpus_entries er = pre @ x # post \<and> 0 < example_confidence m u x \<and>
         (\<forall>y\<in>set pre. example_confidence m u y < example_confidence m u x) \<and>
         (\<forall>y\<in>set post. example_confidence m u y \<le> example_confidence m u x) \<and>
         find_best_intent_match er m u =
           (Some (fst x), example_confidence m u x, ex_output (snd x))"
    by fastforce
next
  show "example_confidence m u entry =
     (if sublist u (lower (ex_input (snd entry))) then 0.9
      else if \<exists>v\<in>set (ex_variations (snd entry)). sublist u (lower v) then 0.8
      else keyword_tier m u (fst entry))"
    by (rule example_confidence_tiers)
  show "keyword_tier m u (fst entry) \<le> 0.7"
    by (rule keyword_tier_bounds)
qed

theorem find_best_intent_match_tiers_witness:
  "find_best_intent_match corpus intent_mapping ''xyz'' = (None, 0, []) \<and>
   (\<exists>pre x post. corpus_entries corpus = pre @ x # post \<and>
      0 < example_confidence intent_mapping ''hello there'' x \<and>
      (\<forall>y\<in>set pre. example_confidence intent_mapping ''hello there'' y
          < example_confidence intent_mapping ''hello there'' x) \<and>
      (\<forall>y\<in>set post. example_confidence intent_mapping ''hello there'' y
          \<le> example_confidence intent_mapping ''hello there'' x) \<and>
      find_best_intent_match corpus intent_mapping ''hello there'' =
        (Some (fst x), example_confidence intent_mapping ''hello there'' x, ex_output (snd x))) \<and>
   find_best_intent_match corpus intent_mapping ''hello'' =
     (Some ''greeting'', 9 / 10, ''Hi there! How can I help you today?'') \<and>
   find_best_intent_match corpus intent_mapping ''hello there'' =
     (Some ''greeting'', 8 / 10, ''Hi there! How can I help you today?'') \<and>
   find_best_intent_match corpus intent_mapping ''a refund please'' =
     (Some ''returns'', 2 / 10,
      ''We offer a 30-day return policy. Items must be in original condition with packaging. Would you like me to help you start a return?'')"
proof -
  have none: "\<forall>x\<in>set (corpus_entries corpus). example_confidence intent_mapping ''xyz'' x = 0"
    by code_simp
  have some: "\<exists>x\<in>set (corpus_entries corpus).
      0 < example_confidence intent_mapping ''hello there'' x"
    by code_simp
  have exact: "find_best_intent_match corpus intent_mapping ''hello'' =
     (Some ''greeting'', 9 / 10, ''Hi there! How can I help you today?'')"
    by code_simp
  have variation: "find_best_intent_match corpus intent_mapping ''hello there'' =
     (Some ''greeting'', 8 / 10, ''Hi there! How can I help you today?'')"
    by code_simp
  have keyword: "find_best_intent_match corpus intent_mapping ''a refund please'' =
     (Some ''returns'', 2 / 10,
      ''We offer a 30-day return policy. Items must be in original condition with packaging. Would you like me to help you start a return?'')"
    by code_simp
  show ?thesis
    using none some exact variation keyword
      find_best_intent_match_tiers [where er = corpus and m = intent_mapping
        and u = "''xyz''" and entry = "(''greeting'', hd (snd (hd corpus)))"]
      find_best_intent_match_tiers [where er = corpus and m = intent_mapping
        and u = "''hello there''" and entry = "(''greeting'', hd (snd (hd corpus)))"]
    by blast
qed


subsection \<open>The baseline chatbot's counters\<close>

lemma format_100: "format_fixed 1 100 = ''100.0''"
  by code_simp

lemma baseline_inv_process_message:
  "baseline_inv s \<Longrightarrow> baseline_inv (fst (process_message e s u sid))"
  by (auto simp: baseline_inv_def process_message_def process_message_body_def
      record_interaction_def Let_def split: sum.splits prod.splits)

lemma baseline_inv_clear_history: "baseline_inv (clear_history s)"
  by (simp add: baseline_inv_def clear_history_def)

lemma baseline_inv_do_call: "baseline_inv s \<Longrightarrow> baseline_inv (do_call s c)"
  by (cases c) (simp_all add: baseline_inv_process_message baseline_inv_clear_history)

lemma baseline_inv_run_calls: "baseline_inv s \<Longrightarrow> baseline_inv (run_calls s cs)"
  unfolding run_calls_def
  by (induction cs arbitrary: s) (simp_all add: baseline_inv_do_call)

lemma baseline_inv_init: "baseline_inv (chatbot_init\<lparr>intents := its\<rparr>)"
  by (simp add: baseline_inv_def chatbot_init_def)

lemma get_analytics_defined:
  "baseline_inv s \<Longrightarrow> \<exists>rep. get_analytics s = Inr rep"
  by (auto simp: get_analytics_def baseline_inv_def Let_def)

lemma success_rate_full:
  assumes "baseline_inv s" "0 < total_requests s"
  shows "\<exists>rep. get_analytics s = Inr rep \<and> a_success_rate rep = ''100.0%''"
proof -
  from assms have "response_times s \<noteq> []"
    by (auto simp: baseline_inv_def)
  moreover from assms
  have "(of_nat (successful_responses s) :: rat) / of_nat (total_requests s) * 100 = 100"
    by (simp add: baseline_inv_def)
  ultimately show ?thesis
    using assms(2) by (simp add: get_analytics_def Let_def format_100 del: One_nat_def)
qed

lemma process_message_error_branch:
  assumes "strip u \<noteq> []" "process_message_body e s u sid = Inl err"
  shows "fst (process_message e s u sid) = s\<lparr>failed_responses := failed_responses s + 1\<rparr>"
  using assms by (simp add: process_message_def)

text \<open>
  Claim C10. After any run of \<open>process_message\<close> and \<open>clear_history\<close> calls on a
  baseline chatbot, whatever its catalog, \<open>total_requests\<close> equals
  \<open>successful_responses\<close>, and when \<open>total_requests\<close> is positive \<open>get_analytics\<close>
  returns a report whose success rate reads \<open>100.0%\<close>. A request whose \<open>try\<close> block
  raises leaves \<open>total_requests\<close> and \<open>successful_responses\<close> as they were and adds one
  to \<open>failed_responses\<close>.
\<close>

theorem total_equals_successful:
  "total_requests (run_calls (chatbot_init\<lparr>intents := its\<rparr>) cs) =
     successful_responses (run_calls (chatbot_init\<lparr>intents := its\<rparr>) cs) \<and>
   (0 < total_requests (run_calls (chatbot_init\<lparr>intents := its\<rparr>) cs) \<longrightarrow>
      (\<exists>rep. get_analytics (run_calls (chatbot_init\<lparr>intents := its\<rparr>) cs) = Inr rep \<and>
         a_success_rate rep = ''100.0%'')) \<and>
   (strip u \<noteq> [] \<and> process_message_body e s u sid = Inl err \<longrightarrow>
      total_requests (fst (process_message e s u sid)) = total_requests s \<and>
      successful_responses (fst (process_message e s u sid)) = successful_responses s \<and>
      failed_responses (fst (process_message e s u sid)) = failed_responses s + 1)"
proof (intro conjI impI)
  have inv: "baseline_inv (run_calls (chatbot_init\<lparr>intents := its\<rparr>) cs)"
    by (rule baseline_inv_run_calls) (rule baseline_inv_init)
  then show "total_requests (run_calls (chatbot_init\<lparr>intents := its\<rparr>) cs) =
     successful_responses (run_calls (chatbot_init\<lparr>intents := its\<rparr>) cs)"
    by (simp add: baseline_inv_def)
  show "\<exists>rep. get_analytics (run_calls (chatbot_init\<lparr>intents := its\<rparr>) cs) = Inr rep \<and>
         a_success_rate rep = ''100.0%''"
    if "0 < total_requests (run_calls (chatbot_init\<lparr>intents := its\<rparr>) cs)"
    using inv that by (rule success_rate_full)
next
  assume raised: "strip u \<noteq> [] \<and> process_message_body e s u sid = Inl err"
  then have step: "fst (process_message e s u sid) = s\<lparr>failed_responses := failed_responses s + 1\<rparr>"
    by (simp add: process_message_error_branch)
  show "total_requests (fst (process_message e s u sid)) = total_requests s"
    by (simp add: step)
  show "successful_responses (fst (process_message e s u sid)) = successful_responses s"
    by (simp add: step)
  show "failed_responses (fst (process_message e s u sid)) = failed_responses s + 1"
    by (simp add: step)
qed

theorem total_equals_successful_witness:
  "total_requests (run_calls (chatbot_init\<lparr>intents := initialize_intents\<rparr>)
      [ProcessMessage env0 ''Hello'' None, ClearHistory,
       ProcessMessage env0 ''Where is my order?'' None]) = 1 \<and>
   (\<exists>rep. get_analytics (run_calls (chatbot_init\<lparr>intents := initialize_intents\<rparr>)
        [ProcessMessage env0 ''Hello'' None, ClearHistory,
         ProcessMessage env0 ''Where is my order?'' None]) = Inr rep \<and>
      a_success_rate rep = ''100.0%'') \<and>
   process_message_body env0 (chatbot_init\<lparr>intents := malformed_catalog\<rparr>) ''a'' None
     = Inl IndexError \<and>
   total_requests (fst (process_message env0 (chatbot_init\<lparr>intents := malformed_catalog\<rparr>)
      ''a'' None)) = 0 \<and>
   failed_responses (fst (process_message env0 (chatbot_init\<lparr>intents := malformed_catalog\<rparr>)
      ''a'' None)) = 1"
proof -
  have total: "total_requests (run_calls (chatbot_init\<lparr>intents := initialize_intents\<rparr>)
      [ProcessMessage env0 ''Hello'' None, ClearHistory,
       ProcessMessage env0 ''Where is my order?'' None]) = 1"
    by code_simp
  have nonblank: "strip ''a'' \<noteq> []"
    by code_simp
  have raised: "process_message_body env0 (chatbot_init\<lparr>intents := malformed_catalog\<rparr>) ''a'' None
     = Inl IndexError"
    by code_simp
  have zero: "total_requests (chatbot_init\<lparr>intents := malformed_catalog\<rparr>) = 0"
    "failed_responses (chatbot_init\<lparr>intents := malformed_catalog\<rparr>) = 0"
    by (simp_all add: chatbot_init_def)
  show ?thesis
    using total nonblank raised zero
      total_equals_successful [where its = initialize_intents
        and cs = "[ProcessMessage env0 ''Hello'' None, ClearHistory,
                   ProcessMessage env0 ''Where is my order?'' None]"
        and u = "''a''" and e = env0 and s = "chatbot_init\<lparr>intents := malformed_catalog\<rparr>"
        and sid = None and err = IndexError]
    by simp
qed


subsection \<open>Request counters\<close>

lemma add_to_history_counters:
  "e_total_requests (add_to_history e s a b c d f) = e_total_requests s"
  "openai_requests (add_to_history e s a b c d f) = openai_requests s"
  "core_requests (add_to_history e s a b c d f) = core_requests s"
  by (simp_all add: add_to_history_def Let_def)

lemma process_with_enhanced_dataset_counters:
  "e_total_requests (fst (process_with_enhanced_dataset e s u)) = e_total_requests s"
  "openai_requests (fst (process_with_enhanced_dataset e s u)) = openai_requests s"
  "core_requests (fst (process_with_enhanced_dataset e s u)) = core_requests s"
  by (simp_all add: process_with_enhanced_dataset_def Let_def split: prod.splits)

lemma core_path_counters:
  "e_total_requests (fst (core_path e s u uid)) = e_total_requests s"
  "openai_requests (fst (core_path e s u uid)) = openai_requests s"
  "core_requests (fst (core_path e s u uid)) = core_requests s + 1"
  using process_with_enhanced_dataset_counters [of e s u]
  by (cases "process_with_enhanced_dataset e s u";
      simp add: core_path_def Let_def add_to_history_counters)+

lemma openai_attempt_counters:
  assumes "openai_attempt gen e s u uid = Inr (s', r)"
  shows "e_total_requests s' = e_total_requests s"
    "openai_requests s' = openai_requests s + 1"
    "core_requests s' = core_requests s"
  using assms
  by (auto simp: openai_attempt_def Let_def add_to_history_counters split: sum.splits prod.splits)

lemma enhanced_process_message_counters:
  "e_total_requests s = openai_requests s + core_requests s \<Longrightarrow>
   e_total_requests (fst (enhanced_process_message gen e s u uid use)) =
   openai_requests (fst (enhanced_process_message gen e s u uid use)) +
   core_requests (fst (enhanced_process_message gen e s u uid use))"
proof -
  assume inv: "e_total_requests s = openai_requests s + core_requests s"
  define s1 where "s1 = s\<lparr>e_total_requests := e_total_requests s + 1\<rparr>"
  have s1: "e_total_requests s1 = openai_requests s1 + core_requests s1 + 1"
    using inv by (simp add: s1_def)
  have core: "e_total_requests (fst (core_path e s1 u uid)) =
      openai_requests (fst (core_path e s1 u uid)) + core_requests (fst (core_path e s1 u uid))"
    using s1 by (simp add: core_path_counters)
  show ?thesis
  proof (cases "use \<and> client (openai_chatbot s1)")
    case False
    then show ?thesis
      using core by (auto simp: enhanced_process_message_def Let_def s1_def)
  next
    case True
    show ?thesis
    proof (cases "openai_attempt gen e s1 u uid")
      case (Inl err)
      then show ?thesis
        using core True by (simp add: enhanced_process_message_def Let_def s1_def)
    next
      case (Inr p)
      obtain s' r where p: "p = (s', r)" by (cases p)
      from openai_attempt_counters [OF Inr [unfolded p]] s1
      have "e_total_requests s' = openai_requests s' + core_requests s'" by simp
      then show ?thesis
        using Inr True by (simp add: enhanced_process_message_def Let_def s1_def p)
    qed
  qed
qed

lemma run_requests_counters:
  "e_total_requests s = openai_requests s + core_requests s \<Longrightarrow>
   e_total_requests (run_requests gen s qs) =
   openai_requests (run_requests gen s qs) + core_requests (run_requests gen s qs)"
  unfolding run_requests_def
  by (induction qs arbitrary: s) (simp_all add: do_request_def enhanced_process_message_counters)

lemma catalog_responses_nonempty:
  "map_of initialize_intents n = Some d \<Longrightarrow> intent_responses d \<noteq> []"
  by (auto simp: initialize_intents_def split: if_splits)

lemma generate_response_catalog:
  "\<exists>t. generate_response initialize_intents pk n = Inr t"
  by (auto simp: generate_response_def get_fallback_response_def random_choice_def
      dest: catalog_responses_nonempty split: option.splits)

lemma catalog_inv_process_message:
  assumes "catalog_inv s"
  shows "catalog_inv (fst (process_message e s u sid))"
proof -
  obtain n c where f: "find_best_intent (intents s) u = (n, c)"
    by (cases "find_best_intent (intents s) u")
  obtain t where t: "generate_response initialize_intents (pick e) n = Inr t"
    using generate_response_catalog by blast
  show ?thesis
    using assms f t
    by (simp add: catalog_inv_def process_message_def process_message_body_def
        record_interaction_def)
qed

lemma catalog_inv_do_call: "catalog_inv s \<Longrightarrow> catalog_inv (do_call s c)"
  by (cases c) (simp_all add: catalog_inv_process_message, simp add: catalog_inv_def clear_history_def)

lemma catalog_inv_run_calls: "catalog_inv s \<Longrightarrow> catalog_inv (run_calls s cs)"
  unfolding run_calls_def
  by (induction cs arbitrary: s) (simp_all add: catalog_inv_do_call)

text \<open>
  Claim C7. After any run of requests from the constructor's state, for every behaviour
  of the generative call, the enhanced chatbot's \<open>total_requests\<close> is
  \<open>openai_requests + core_requests\<close>; and after any run of \<open>process_message\<close> and
  \<open>clear_history\<close> calls on the baseline chatbot, \<open>total_requests\<close> is
  \<open>successful_responses + failed_responses\<close>.
\<close>

theorem total_is_sum_of_sources:
  "e_total_requests (run_requests gen (enhanced_init configured) qs) =
     openai_requests (run_requests gen (enhanced_init configured) qs) +
     core_requests (run_requests gen (enhanced_init configured) qs) \<and>
   total_requests (run_calls chatbot_init cs) =
     successful_responses (run_calls chatbot_init cs) + failed_responses (run_calls chatbot_init cs)"
proof
  show "e_total_requests (run_requests gen (enhanced_init configured) qs) =
     openai_requests (run_requests gen (enhanced_init configured) qs) +
     core_requests (run_requests gen (enhanced_init configured) qs)"
    by (rule run_requests_counters) (simp add: enhanced_init_def)
  have "catalog_inv chatbot_init"
    by (simp add: catalog_inv_def chatbot_init_def)
  then have "catalog_inv (run_calls chatbot_init cs)"
    by (rule catalog_inv_run_calls)
  then show "total_requests (run_calls chatbot_init cs) =
     successful_responses (run_calls chatbot_init cs) + failed_responses (run_calls chatbot_init cs)"
    by (simp add: catalog_inv_def)
qed


subsection \<open>The rolling conversation window\<close>

lemma last_n_rev: "last_n n xs = rev (take n (rev xs))"
  by (simp add: last_n_def rev_take)

lemma last_n_short: "length xs \<le> n \<Longrightarrow> last_n n xs = xs"
  by (simp add: last_n_def)

lemma length_last_n: "length (last_n n xs) = min n (length xs)"
  by (simp add: last_n_def)

lemma last_n_append_last_n: "last_n n (last_n n xs @ ys) = last_n n (xs @ ys)"
  by (simp add: last_n_rev min_def)

lemma add_to_history_window:
  "e_conversation_history (add_to_history e s ui br src c uid) =
     last_n 100 (e_conversation_history s @ [history_record e ui br src c uid])"
  by (simp add: add_to_history_def Let_def last_n_short)

lemma add_to_history_bounded:
  "length (e_conversation_history (add_to_history e s ui br src c uid)) \<le> 100"
  by (simp add: add_to_history_window length_last_n)

lemma add_calls_window:
  "e_conversation_history (foldl add_call s cs) =
     (if cs = [] then e_conversation_history s
      else last_n 100 (e_conversation_history s @ map record_of_call cs))"
proof (induction cs rule: rev_induct)
  case Nil
  then show ?case by simp
next
  case (snoc c cs)
  have "e_conversation_history (foldl add_call s (cs @ [c])) =
          last_n 100 (e_conversation_history (foldl add_call s cs) @ [record_of_call c])"
    by (simp add: add_call_def record_of_call_def add_to_history_window)
  also have "\<dots> = last_n 100 (e_conversation_history s @ map record_of_call (cs @ [c]))"
    using last_n_append_last_n [of 100 "e_conversation_history s @ map record_of_call cs"
        "[record_of_call c]"]
    by (simp add: snoc.IH)
  finally show ?case by simp
qed

lemma core_path_history_bounded:
  "length (e_conversation_history (fst (core_path e s u uid))) \<le> 100"
  by (cases "process_with_enhanced_dataset e s u")
    (simp add: core_path_def Let_def add_to_history_bounded)

lemma openai_attempt_history_bounded:
  "openai_attempt gen e s u uid = Inr (s', r) \<Longrightarrow> length (e_conversation_history s') \<le> 100"
  by (auto simp: openai_attempt_def Let_def add_to_history_bounded split: sum.splits prod.splits)

lemma enhanced_process_message_history_bounded:
  "length (e_conversation_history (fst (enhanced_process_message gen e s u uid use))) \<le> 100"
proof (cases "openai_attempt gen e (s\<lparr>e_total_requests := e_total_requests s + 1\<rparr>) u uid")
  case (Inl err)
  then show ?thesis
    by (simp add: enhanced_process_message_def Let_def core_path_history_bounded)
next
  case (Inr p)
  obtain s' r where p: "p = (s', r)" by (cases p)
  from openai_attempt_history_bounded [OF Inr [unfolded p]] Inr
  show ?thesis
    by (simp add: enhanced_process_message_def Let_def core_path_history_bounded p)
qed

lemma run_requests_history_bounded:
  "length (e_conversation_history s) \<le> 100 \<Longrightarrow>
   length (e_conversation_history (run_requests gen s qs)) \<le> 100"
  unfolding run_requests_def
  by (induction qs rule: rev_induct)
    (simp_all add: do_request_def enhanced_process_message_history_bounded)

lemma recent_conversations_view:
  "get_analytics b = Inr rep \<Longrightarrow>
   a_recent_conversations rep = last_n 10 (conversation_history b)"
  by (auto simp: get_analytics_def Let_def split: if_splits)

text \<open>
  Claim C8. The enhanced chatbot's conversation history never holds more than 100
  records, after any run of requests and after any single \<open>_add_to_history\<close>. Starting
  from an empty history, a run of \<open>_add_to_history\<close> calls leaves the appended records
  in order when there are at most 100, and when there are \<open>100 + k\<close> exactly the first
  \<open>k\<close> are gone and the rest keep their order. The baseline chatbot's
  \<open>recent_conversations\<close> view holds at most 10 records: the whole history when it has
  at most 10, and the history without its first \<open>k\<close> records when it has \<open>10 + k\<close>.
\<close>

theorem rolling_window_fifo:
  "length (e_conversation_history (run_requests gen (enhanced_init configured) qs)) \<le> 100 \<and>
   length (e_conversation_history (add_to_history e s ui br src c uid)) \<le> 100 \<and>
   (e_conversation_history s = [] \<and> length cs \<le> 100 \<longrightarrow>
      e_conversation_history (foldl add_call s cs) = map record_of_call cs) \<and>
   (e_conversation_history s = [] \<and> length cs = 100 + k \<longrightarrow>
      e_conversation_history (foldl add_call s cs) = drop k (map record_of_call cs)) \<and>
   (get_analytics b = Inr rep \<longrightarrow>
      length (a_recent_conversations rep) \<le> 10 \<and>
      (length (conversation_history b) \<le> 10 \<longrightarrow>
         a_recent_conversations rep = conversation_history b) \<and>
      (length (conversation_history b) = 10 + k \<longrightarrow>
         a_recent_conversations rep = drop k (conversation_history b)))"
proof (intro conjI impI)
  show "length (e_conversation_history (run_requests gen (enhanced_init configured) qs)) \<le> 100"
    by (rule run_requests_history_bounded) (simp add: enhanced_init_def)
  show "length (e_conversation_history (add_to_history e s ui br src c uid)) \<le> 100"
    by (rule add_to_history_bounded)
next
  assume "e_conversation_history s = [] \<and> length cs \<le> 100"
  then show "e_conversation_history (foldl add_call s cs) = map record_of_call cs"
    by (simp add: add_calls_window last_n_short)
next
  assume "e_conversation_history s = [] \<and> length cs = 100 + k"
  then show "e_conversation_history (foldl add_call s cs) = drop k (map record_of_call cs)"
    by (auto simp: add_calls_window last_n_def)
next
  assume rep: "get_analytics b = Inr rep"
  show "length (a_recent_conversations rep) \<le> 10"
    by (simp add: recent_conversations_view [OF rep] length_last_n)
  show "a_recent_conversations rep = conversation_history b"
    if "length (conversation_history b) \<le> 10"
    using that by (simp add: recent_conversations_view [OF rep] last_n_short)
  show "a_recent_conversations rep = drop k (conversation_history b)"
    if "length (conversation_history b) = 10 + k"
    using that by (simp add: recent_conversations_view [OF rep] last_n_def)
qed

theorem rolling_window_fifo_witness:
  "e_conversation_history (foldl add_call (enhanced_init False) (map numbered_call [0..<103])) =
     drop 3 (map record_of_call (map numbered_call [0..<103])) \<and>
   e_conversation_history (foldl add_call (enhanced_init False) (map numbered_call [0..<7])) =
     map record_of_call (map numbered_call [0..<7]) \<and>
   (\<exists>rep. get_analytics (run_calls chatbot_init numbered_messages) = Inr rep \<and>
      length (conversation_history (run_calls chatbot_init numbered_messages)) = 10 + 2 \<and>
      a_recent_conversations rep =
        drop 2 (conversation_history (run_calls chatbot_init numbered_messages))) \<and>
   (\<exists>rep. get_analytics chatbot_init = Inr rep \<and>
      a_recent_conversations rep = conversation_history chatbot_init)"
proof -
  have empty: "e_conversation_history (enhanced_init False) = []"
    by (simp add: enhanced_init_def)
  have len: "length (conversation_history (run_calls chatbot_init numbered_messages)) = 10 + 2"
    by code_simp
  have "baseline_inv (run_calls chatbot_init numbered_messages)"
    using baseline_inv_init [of initialize_intents]
    by (intro baseline_inv_run_calls) (simp add: chatbot_init_def)
  then obtain rep where rep: "get_analytics (run_calls chatbot_init numbered_messages) = Inr rep"
    using get_analytics_defined by blast
  have "baseline_inv chatbot_init"
    using baseline_inv_init [of initialize_intents] by (simp add: chatbot_init_def)
  then obtain rep0 where rep0: "get_analytics chatbot_init = Inr rep0"
    using get_analytics_defined by blast
  have short: "length (conversation_history chatbot_init) \<le> 10"
    by (simp add: chatbot_init_def)
  show ?thesis
    using empty len rep rep0 short
      rolling_window_fifo [where s = "enhanced_init False"
        and cs = "map numbered_call [0..<103]" and k = 3
        and b = "run_calls chatbot_init numbered_messages" and rep = rep]
      rolling_window_fifo [where s = "enhanced_init False"
        and cs = "map numbered_call [0..<7]" and k = 2
        and b = "run_calls chatbot_init numbered_messages" and rep = rep]
      rolling_window_fifo [where s = "enhanced_init False"
        and cs = "[]" and k = 0 and b = chatbot_init and rep = rep0]
    by simp
qed


subsection \<open>Surface variations\<close>

text \<open>
  Claim C9. \<open>generate_variations\<close> is a function of the base text and the intent label
  alone. Its result starts with the base text. For a greeting it continues with the
  base followed by \<open>there\<close> and by an exclamation mark, and the lowered base after
  \<open>Hey\<close> and after \<open>Good morning\<close>; for an order-status input with the base after
  \<open>Where is\<close>, \<open>Status of\<close>, \<open>Track\<close> and \<open>Check\<close>; for a shipping input with the
  base inside four delivery phrases. For these three intents the number of variants
  after the base text lies between 3 and 4 (it is 4); for every other intent the result
  is the base text alone.
\<close>

theorem generate_variations_by_intent:
  "(intent_name = ''greeting'' \<longrightarrow>
      generate_variations base intent_name =
        [base, base @ '' there'', base @ ''!'', ''Hey '' @ lower base,
         ''Good morning '' @ lower base]) \<and>
   (intent_name = ''order_status'' \<longrightarrow>
      generate_variations base intent_name =
        [base, ''Where is '' @ base, ''Status of '' @ base, ''Track '' @ base,
         ''Check '' @ base]) \<and>
   (intent_name = ''shipping'' \<longrightarrow>
      generate_variations base intent_name =
        [base, ''How long for '' @ base, ''When will '' @ base @ '' arrive'',
         ''Delivery time for '' @ base, ''Shipping duration for '' @ base]) \<and>
   (intent_name \<in> {''greeting'', ''order_status'', ''shipping''} \<longrightarrow>
      3 \<le> length (tl (generate_variations base intent_name)) \<and>
      length (tl (generate_variations base intent_name)) \<le> 4) \<and>
   (intent_name \<notin> {''greeting'', ''order_status'', ''shipping''} \<longrightarrow>
      generate_variations base intent_name = [base]) \<and>
   hd (generate_variations base intent_name) = base"
  by (simp add: generate_variations_def)

theorem generate_variations_by_intent_witness:
  "generate_variations ''Hello'' ''greeting'' =
     [''Hello'', ''Hello there'', ''Hello!'', ''Hey hello'', ''Good morning hello''] \<and>
   generate_variations ''Order status'' ''order_status'' =
     [''Order status'', ''Where is Order status'', ''Status of Order status'',
      ''Track Order status'', ''Check Order status''] \<and>
   generate_variations ''Shipping time'' ''shipping'' =
     [''Shipping time'', ''How long for Shipping time'', ''When will Shipping time arrive'',
      ''Delivery time for Shipping time'', ''Shipping duration for Shipping time''] \<and>
   length (tl (generate_variations ''Hello'' ''greeting'')) = 4 \<and>
   generate_variations ''Refund'' ''returns'' = [''Refund'']"
proof -
  have low: "lower ''Hello'' = ''hello''"
    by code_simp
  show ?thesis
    using low
      generate_variations_by_intent [of "''greeting''" "''Hello''"]
      generate_variations_by_intent [of "''order_status''" "''Order status''"]
      generate_variations_by_intent [of "''shipping''" "''Shipping time''"]
      generate_variations_by_intent [of "''returns''" "''Refund''"]
    by simp
qed


subsection \<open>The fallback chain of the enhanced chatbot\<close>

lemma truthy_tuple: "truthy t"
  by (simp add: truthy_def tuple_len_def)

lemma process_with_enhanced_dataset_match:
  "process_with_enhanced_dataset e s u =
     (s, \<lparr>k_text = snd (snd (find_best_intent_match (enhanced_responses s) intent_mapping (lower u))),
          k_intent = fst (find_best_intent_match (enhanced_responses s) intent_mapping (lower u)),
          k_confidence =
            fst (snd (find_best_intent_match (enhanced_responses s) intent_mapping (lower u)))\<rparr>)"
  by (simp add: process_with_enhanced_dataset_def Let_def truthy_tuple split: prod.splits)

lemma core_path_result:
  "snd (core_path e s u uid) =
     \<lparr>res_text = snd (snd (find_best_intent_match (enhanced_responses s) intent_mapping (lower u))),
      res_intent = fst (find_best_intent_match (enhanced_responses s) intent_mapping (lower u)),
      res_confidence =
        fst (snd (find_best_intent_match (enhanced_responses s) intent_mapping (lower u))),
      res_response_time = elapsed e, res_source = ''core_enhanced'',
      res_model = ''dataset_trained''\<rparr>"
  by (simp add: core_path_def process_with_enhanced_dataset_match Let_def)

lemma core_path_state:
  "core_chatbot (fst (core_path e s u uid)) = core_chatbot s"
  "e_total_requests (fst (core_path e s u uid)) = e_total_requests s"
  "openai_requests (fst (core_path e s u uid)) = openai_requests s"
  "core_requests (fst (core_path e s u uid)) = core_requests s + 1"
  by (simp_all add: core_path_def process_with_enhanced_dataset_match Let_def add_to_history_def)

lemma enhanced_local_path:
  "\<not> (use \<and> client (openai_chatbot s)) \<Longrightarrow>
   enhanced_process_message gen e s u uid use =
     core_path e (s\<lparr>e_total_requests := e_total_requests s + 1\<rparr>) u uid"
  by (auto simp: enhanced_process_message_def Let_def)

lemma enhanced_init_fields:
  "enhanced_responses (enhanced_init c) = corpus"
  "core_chatbot (enhanced_init c) = chatbot_init"
  "client (openai_chatbot (enhanced_init c)) = c"
  "e_total_requests (enhanced_init c) = 0"
  "openai_requests (enhanced_init c) = 0"
  "core_requests (enhanced_init c) = 0"
  by (simp_all add: enhanced_init_def corpus_def)

lemma match_opening_hours:
  "find_best_intent_match corpus intent_mapping (lower ''What are your opening hours?'')
     = (None, 0, [])"
  by code_simp

lemma classify_opening_hours:
  "find_best_intent initialize_intents ''What are your opening hours?'' = (''fallback'', 0)"
  by code_simp

lemma match_empty:
  "find_best_intent_match corpus intent_mapping (lower [])
     = (Some ''greeting'', 9 / 10, ''Hi there! How can I help you today?'')"
  by code_simp

lemma match_blank:
  "find_best_intent_match corpus intent_mapping (lower ''   '') = (None, 0, [])"
  by code_simp

lemma blank_is_whitespace: "strip ''   '' = []"
  by code_simp

lemma opening_hours_not_blank: "strip ''What are your opening hours?'' \<noteq> []"
  by code_simp

text \<open>
  Claim C1 (not met by the code). With the generative strategy switched off, the request
  \<open>What are your opening hours?\<close> matches no corpus example and no corpus keyword.
  \<open>_find_best_intent_match\<close> then returns the triple \<open>(None, 0.0, "")\<close>, which is true
  as a condition, so \<open>_process_with_enhanced_dataset\<close> returns it as the answer: empty
  text and no intent. The Keyword Classifier, which resolves this input to \<open>fallback\<close>,
  is not consulted: the core chatbot's state is untouched.
\<close>

theorem unmatched_request_unresolved:
  "snd (enhanced_process_message gen e (enhanced_init configured)
         ''What are your opening hours?'' uid False) =
     \<lparr>res_text = [], res_intent = None, res_confidence = 0, res_response_time = elapsed e,
      res_source = ''core_enhanced'', res_model = ''dataset_trained''\<rparr> \<and>
   core_chatbot (fst (enhanced_process_message gen e (enhanced_init configured)
         ''What are your opening hours?'' uid False)) = chatbot_init \<and>
   find_best_intent initialize_intents ''What are your opening hours?'' = (''fallback'', 0)"
  by (simp add: enhanced_local_path core_path_result core_path_state enhanced_init_fields
      match_opening_hours classify_opening_hours)

lemma process_message_empty_input:
  "strip u = [] \<Longrightarrow>
   process_message e s u sid =
     (s, \<lparr>r_text = ''Please enter a message so I can help you!'', r_intent = ''empty_input'',
          r_confidence = 0, r_response_time = 0, r_timestamp = now_iso e\<rparr>)"
  by (simp add: process_message_def create_response_def)

text \<open>
  Claim C2 (not met by the code). The baseline \<open>process_message\<close> answers every empty
  or whitespace-only input with the fixed prompt, confidence \<open>0\<close>, and leaves the
  counters alone (\<open>process_message_empty_input\<close>). The enhanced \<open>process_message\<close> has
  no such test. The empty string is a substring of every example, so the empty input is
  answered as a greeting with confidence \<open>0.9\<close>; three blanks match nothing and are
  answered with empty text and no intent; both requests are counted in
  \<open>total_requests\<close> and \<open>core_requests\<close>.
\<close>

theorem enhanced_empty_input_unguarded:
  "snd (enhanced_process_message gen e (enhanced_init configured) [] uid False) =
     \<lparr>res_text = ''Hi there! How can I help you today?'', res_intent = Some ''greeting'',
      res_confidence = 9 / 10, res_response_time = elapsed e,
      res_source = ''core_enhanced'', res_model = ''dataset_trained''\<rparr> \<and>
   e_total_requests (fst (enhanced_process_message gen e (enhanced_init configured) [] uid
      False)) = 1 \<and>
   core_requests (fst (enhanced_process_message gen e (enhanced_init configured) [] uid
      False)) = 1 \<and>
   strip ''   '' = [] \<and>
   snd (enhanced_process_message gen e (enhanced_init configured) ''   '' uid False) =
     \<lparr>res_text = [], res_intent = None, res_confidence = 0, res_response_time = elapsed e,
      res_source = ''core_enhanced'', res_model = ''dataset_trained''\<rparr> \<and>
   e_total_requests (fst (enhanced_process_message gen e (enhanced_init configured) ''   '' uid
      False)) = 1"
  by (simp add: enhanced_local_path core_path_result core_path_state enhanced_init_fields
      match_empty match_blank blank_is_whitespace)

lemma oa_get_fallback_response_value:
  "\<exists>reply. oa_get_fallback_response pk =
     Inr \<lparr>o_text = reply, o_intent = ''fallback'', o_confidence = 1 / 2, o_response_time = 0,
          o_model = ''fallback''\<rparr>"
  by (simp add: oa_get_fallback_response_def random_choice_def)

lemma get_openai_response_never_raises:
  "\<exists>r. get_openai_response gen e oc u = Inr r"
proof -
  obtain reply where "oa_get_fallback_response (pick e) =
     Inr \<lparr>o_text = reply, o_intent = ''fallback'', o_confidence = 1 / 2, o_response_time = 0,
          o_model = ''fallback''\<rparr>"
    using oa_get_fallback_response_value by blast
  then show ?thesis
    by (simp add: get_openai_response_def Let_def split: sum.splits)
qed

lemma get_openai_response_failing:
  "client oc \<Longrightarrow>
   \<exists>reply. get_openai_response always_failing e oc u =
     Inr (oc, \<lparr>o_text = reply, o_intent = ''fallback'', o_confidence = 1 / 2,
               o_response_time = 0, o_model = ''fallback''\<rparr>)"
  using oa_get_fallback_response_value [of "pick e"]
  by (auto simp: get_openai_response_def always_failing_def)

lemma enhanced_failing_generative:
  assumes "client (openai_chatbot s)"
  shows "\<exists>reply. enhanced_process_message always_failing e s u uid True =
     (add_to_history e
        (s\<lparr>e_total_requests := e_total_requests s + 1,
           openai_requests := openai_requests s + 1\<rparr>) u reply ''openai'' (1 / 2) uid
        \<lparr>e_response_times := e_response_times s @ [elapsed e]\<rparr>,
      \<lparr>res_text = reply, res_intent = Some ''fallback'', res_confidence = 1 / 2,
       res_response_time = elapsed e, res_source = ''openai'', res_model = ''fallback''\<rparr>)"
proof -
  obtain reply where r: "get_openai_response always_failing e (openai_chatbot s) u =
     Inr (openai_chatbot s, \<lparr>o_text = reply, o_intent = ''fallback'', o_confidence = 1 / 2,
               o_response_time = 0, o_model = ''fallback''\<rparr>)"
    using get_openai_response_failing [OF assms] by blast
  show ?thesis
    using assms r
    by (intro exI [of _ reply])
      (simp add: enhanced_process_message_def openai_attempt_def Let_def add_to_history_def)
qed

text \<open>
  Claim C3 (not met by the code). With the client configured and a generative call that
  raises every time, no exception leaves \<open>get_openai_response\<close>
  (\<open>get_openai_response_never_raises\<close>): it catches the failure and returns one of its
  own canned texts with confidence \<open>0.5\<close> and model \<open>fallback\<close>. The orchestrator
  takes this for a generative answer: for every input the result has source \<open>openai\<close>,
  \<open>openai_requests\<close> becomes 1 and \<open>core_requests\<close> stays 0; no local strategy runs.
\<close>

theorem failing_generative_call_counted:
  "res_source (snd (enhanced_process_message always_failing e (enhanced_init True) u uid True))
     = ''openai'' \<and>
   res_model (snd (enhanced_process_message always_failing e (enhanced_init True) u uid True))
     = ''fallback'' \<and>
   res_intent (snd (enhanced_process_message always_failing e (enhanced_init True) u uid True))
     = Some ''fallback'' \<and>
   res_confidence (snd (enhanced_process_message always_failing e (enhanced_init True) u uid
     True)) = 1 / 2 \<and>
   openai_requests (fst (enhanced_process_message always_failing e (enhanced_init True) u uid
     True)) = 1 \<and>
   core_requests (fst (enhanced_process_message always_failing e (enhanced_init True) u uid
     True)) = 0"
proof -
  have "client (openai_chatbot (enhanced_init True))"
    by (simp add: enhanced_init_fields)
  from enhanced_failing_generative [OF this, of e u uid]
  obtain reply where "enhanced_process_message always_failing e (enhanced_init True) u uid True =
     (add_to_history e
        ((enhanced_init True)\<lparr>e_total_requests := e_total_requests (enhanced_init True) + 1,
           openai_requests := openai_requests (enhanced_init True) + 1\<rparr>) u reply ''openai''
           (1 / 2) uid
        \<lparr>e_response_times := e_response_times (enhanced_init True) @ [elapsed e]\<rparr>,
      \<lparr>res_text = reply, res_intent = Some ''fallback'', res_confidence = 1 / 2,
       res_response_time = elapsed e, res_source = ''openai'', res_model = ''fallback''\<rparr>)"
    by blast
  then show ?thesis
    by (simp add: add_to_history_def Let_def enhanced_init_fields)
qed


subsection \<open>Confidence values\<close>

lemma find_best_intent_confidence:
  "0 \<le> snd (find_best_intent its u) \<and> snd (find_best_intent its u) \<le> 1"
  by (simp add: find_best_intent_def Let_def min_def)

lemma find_best_intent_cases:
  "find_best_intent its u = (''fallback'', 0) \<or>
   (fst (find_best_intent its u) \<in> fst ` set its \<and> 0 < snd (find_best_intent its u))"
  using best_intent_fold [of its u]
proof (elim disjE conjE exE)
  assume "foldl (best_intent_step (lower u)) (0, ''fallback'') its = (0, ''fallback'')"
  then show ?thesis by (simp add: find_best_intent_def)
next
  fix pre y post
  assume its: "its = pre @ y # post" and pos: "0 < keyword_hits u y"
    and fold: "foldl (best_intent_step (lower u)) (0, ''fallback'') its = (keyword_hits u y, fst y)"
  have "find_best_intent its u = (fst y, min (of_nat (keyword_hits u y) / 3) 1)"
    using fold pos by (simp add: find_best_intent_def)
  moreover have "fst y \<in> fst ` set its"
    using its by simp
  moreover have "(0::rat) < min (of_nat (keyword_hits u y) / 3) 1"
    using pos by simp
  ultimately show ?thesis by simp
qed

lemma catalog_names:
  "fst ` set initialize_intents =
     {''greeting'', ''order_status'', ''shipping'', ''returns'', ''payment'', ''product_info'',
      ''contact'', ''account'', ''complaint'', ''goodbye''}"
  by (simp add: initialize_intents_def)

lemma process_message_confidence:
  "0 \<le> r_confidence (snd (process_message e s u sid)) \<and>
   r_confidence (snd (process_message e s u sid)) \<le> 1"
  using find_best_intent_confidence [of "intents s" u]
  by (auto simp: process_message_def process_message_body_def create_response_def Let_def
      split: sum.splits prod.splits)

lemma process_message_confidence_zero:
  assumes "intents s = initialize_intents"
  shows "r_confidence (snd (process_message e s u sid)) = 0 \<longleftrightarrow>
         r_intent (snd (process_message e s u sid)) \<in> {''fallback'', ''empty_input'', ''error''}"
proof (cases "strip u = []")
  case True
  then show ?thesis
    by (simp add: process_message_def create_response_def)
next
  case False
  obtain n c where f: "find_best_intent initialize_intents u = (n, c)"
    by (cases "find_best_intent initialize_intents u")
  from find_best_intent_cases [of initialize_intents u] f
  have nc: "(n = ''fallback'' \<and> c = 0) \<or> (n \<in> fst ` set initialize_intents \<and> 0 < c)"
    by auto
  obtain reply where g: "generate_response initialize_intents (pick e) n = Inr reply"
    using generate_response_catalog by blast
  have res: "snd (process_message e s u sid) = create_response e reply n c (elapsed e)"
    using False assms f g by (simp add: process_message_def process_message_body_def)
  from nc show ?thesis
    unfolding res catalog_names by (auto simp: create_response_def)
qed

lemma example_confidence_le: "example_confidence m u x \<le> 9 / 10"
  using keyword_tier_bounds(2) [of m u "fst x"]
  by (simp add: example_confidence_def exact_tier_def variation_tier_def max_def)

lemma find_best_intent_match_cases:
  "find_best_intent_match er m u = (None, 0, []) \<or>
   (\<exists>i c out. find_best_intent_match er m u = (Some i, c, out) \<and> 0 < c \<and> c \<le> 9 / 10)"
  using best_match_fold [of er m u] example_confidence_le [of m u]
  by auto

lemma core_path_confidence:
  "0 \<le> res_confidence (snd (core_path e s u uid)) \<and>
   res_confidence (snd (core_path e s u uid)) \<le> 1"
  using find_best_intent_match_cases [of "enhanced_responses s" intent_mapping "lower u"]
  by (auto simp: core_path_result)

lemma get_openai_response_confidence:
  "get_openai_response gen e oc u = Inr (oc', r) \<Longrightarrow>
   o_confidence r = 95 / 100 \<or> o_confidence r = 1 / 2"
  using oa_get_fallback_response_value [of "pick e"]
  by (auto simp: get_openai_response_def Let_def split: if_splits sum.splits)

lemma openai_attempt_confidence:
  "openai_attempt gen e s u uid = Inr (s', r) \<Longrightarrow>
   res_confidence r = 95 / 100 \<or> res_confidence r = 1 / 2"
  by (auto simp: openai_attempt_def Let_def split: sum.splits prod.splits
      dest: get_openai_response_confidence)

lemma enhanced_process_message_confidence:
  "0 \<le> res_confidence (snd (enhanced_process_message gen e s u uid use)) \<and>
   res_confidence (snd (enhanced_process_message gen e s u uid use)) \<le> 1"
proof (cases "use \<and> client (openai_chatbot s)")
  case False
  then show ?thesis
    using core_path_confidence by (simp add: enhanced_local_path)
next
  case True
  show ?thesis
  proof (cases "openai_attempt gen e (s\<lparr>e_total_requests := e_total_requests s + 1\<rparr>) u uid")
    case (Inl err)
    then show ?thesis
      using True core_path_confidence by (simp add: enhanced_process_message_def Let_def)
  next
    case (Inr p)
    obtain s' r where p: "p = (s', r)" by (cases p)
    from openai_attempt_confidence [OF Inr [unfolded p]] Inr True
    show ?thesis
      by (auto simp: enhanced_process_message_def Let_def p)
  qed
qed

lemma openai_attempt_source:
  "openai_attempt gen e s u uid = Inr (s', r) \<Longrightarrow> res_source r = ''openai''"
  by (auto simp: openai_attempt_def Let_def split: sum.splits prod.splits)

lemma enhanced_process_message_source:
  "res_source (snd (enhanced_process_message gen e s u uid use)) = ''openai'' \<or>
   res_source (snd (enhanced_process_message gen e s u uid use)) = ''core_enhanced''"
proof (cases "use \<and> client (openai_chatbot s)")
  case False
  then show ?thesis
    by (simp add: enhanced_local_path core_path_result)
next
  case True
  show ?thesis
  proof (cases "openai_attempt gen e (s\<lparr>e_total_requests := e_total_requests s + 1\<rparr>) u uid")
    case (Inl err)
    then show ?thesis
      using True by (simp add: enhanced_process_message_def Let_def core_path_result)
  next
    case (Inr p)
    obtain s' r where p: "p = (s', r)" by (cases p)
    from openai_attempt_source [OF Inr [unfolded p]] Inr True
    show ?thesis
      by (simp add: enhanced_process_message_def Let_def p)
  qed
qed

lemma process_message_opening_hours:
  "snd (process_message env0 chatbot_init ''What are your opening hours?'' None) =
     create_response env0
       ''I'm sorry, I didn't quite understand that. Could you please rephrase your question?''
       ''fallback'' 0 (elapsed env0)"
  by code_simp

lemma match_hello:
  "find_best_intent_match corpus intent_mapping (lower ''Hello'')
     = (Some ''greeting'', 9 / 10, ''Hi there! How can I help you today?'')"
  by code_simp

lemma classify_hello:
  "find_best_intent initialize_intents ''Hello'' = (''greeting'', 1 / 3)"
  by code_simp

text \<open>
  Claim C6 as the specification words it fails on the code. The input
  \<open>What are your opening hours?\<close> is not empty and contains no keyword of the catalog.
  The Keyword Classifier resolves it to its sentinel \<open>fallback\<close> with confidence \<open>0\<close>,
  and the baseline \<open>process_message\<close> returns that result: a confidence of \<open>0\<close> on a
  non-empty input, produced by the keyword strategy.
\<close>

theorem confidence_zero_iff_counterexample:
  "strip ''What are your opening hours?'' \<noteq> [] \<and>
   find_best_intent initialize_intents ''What are your opening hours?'' = (''fallback'', 0) \<and>
   r_intent (snd (process_message env0 chatbot_init ''What are your opening hours?'' None))
     = ''fallback'' \<and>
   r_confidence (snd (process_message env0 chatbot_init ''What are your opening hours?'' None))
     = 0"
  by (simp add: opening_hours_not_blank classify_opening_hours process_message_opening_hours
      create_response_def)

text \<open>
  Claim C6, amended. Every result of the baseline and of the enhanced \<open>process_message\<close>
  has its confidence between \<open>0\<close> and \<open>1\<close>. For the baseline chatbot with its own
  catalog the confidence is \<open>0\<close> exactly when the result is a generic one: intent
  \<open>fallback\<close> (no keyword found), \<open>empty_input\<close> (empty or whitespace-only input) or
  \<open>error\<close>. Every result of the enhanced chatbot carries the source \<open>openai\<close> or
  \<open>core_enhanced\<close>; none carries a source \<open>generic-fallback\<close>.
\<close>

theorem confidence_in_unit_interval:
  "0 \<le> r_confidence (snd (process_message e s u sid)) \<and>
   r_confidence (snd (process_message e s u sid)) \<le> 1 \<and>
   0 \<le> res_confidence (snd (enhanced_process_message gen e t u uid use)) \<and>
   res_confidence (snd (enhanced_process_message gen e t u uid use)) \<le> 1 \<and>
   (intents s = initialize_intents \<longrightarrow>
      (r_confidence (snd (process_message e s u sid)) = 0 \<longleftrightarrow>
       r_intent (snd (process_message e s u sid)) \<in> {''fallback'', ''empty_input'', ''error''})) \<and>
   (res_source (snd (enhanced_process_message gen e t u uid use)) = ''openai'' \<or>
    res_source (snd (enhanced_process_message gen e t u uid use)) = ''core_enhanced'') \<and>
   res_source (snd (enhanced_process_message gen e t u uid use)) \<noteq> ''generic-fallback''"
proof (intro conjI impI)
  show "0 \<le> r_confidence (snd (process_message e s u sid))"
    and "r_confidence (snd (process_message e s u sid)) \<le> 1"
    using process_message_confidence [of e s u sid] by simp_all
  show "0 \<le> res_confidence (snd (enhanced_process_message gen e t u uid use))"
    and "res_confidence (snd (enhanced_process_message gen e t u uid use)) \<le> 1"
    using enhanced_process_message_confidence [of gen e t u uid use] by simp_all
  show tags: "res_source (snd (enhanced_process_message gen e t u uid use)) = ''openai'' \<or>
    res_source (snd (enhanced_process_message gen e t u uid use)) = ''core_enhanced''"
    by (rule enhanced_process_message_source)
  from tags show "res_source (snd (enhanced_process_message gen e t u uid use))
      \<noteq> ''generic-fallback''"
    by auto
next
  assume "intents s = initialize_intents"
  then show "r_confidence (snd (process_message e s u sid)) = 0 \<longleftrightarrow>
       r_intent (snd (process_message e s u sid)) \<in> {''fallback'', ''empty_input'', ''error''}"
    by (rule process_message_confidence_zero)
qed

theorem confidence_in_unit_interval_witness:
  "r_intent (snd (process_message env0 chatbot_init ''Hello'' None)) = ''greeting'' \<and>
   r_confidence (snd (process_message env0 chatbot_init ''Hello'' None)) = 1 / 3 \<and>
   r_intent (snd (process_message env0 chatbot_init ''   '' None)) = ''empty_input'' \<and>
   r_confidence (snd (process_message env0 chatbot_init ''   '' None)) = 0 \<and>
   res_confidence (snd (enhanced_process_message always_failing env0 (enhanced_init False)
      ''Hello'' None False)) = 9 / 10 \<and>
   res_source (snd (enhanced_process_message always_failing env0 (enhanced_init False)
      ''Hello'' None False)) = ''core_enhanced''"
proof -
  have cat: "intents chatbot_init = initialize_intents"
    by (simp add: chatbot_init_def)
  have hello: "r_intent (snd (process_message env0 chatbot_init ''Hello'' None)) = ''greeting''"
    by code_simp
  have blank: "r_intent (snd (process_message env0 chatbot_init ''   '' None)) = ''empty_input''"
    by (simp add: process_message_empty_input blank_is_whitespace)
  have third: "r_confidence (snd (process_message env0 chatbot_init ''Hello'' None)) = 1 / 3"
    by code_simp
  have local: "res_confidence (snd (enhanced_process_message always_failing env0
      (enhanced_init False) ''Hello'' None False)) = 9 / 10"
    by (simp add: enhanced_local_path core_path_result enhanced_init_fields match_hello)
  have not_openai: "res_source (snd (enhanced_process_message always_failing env0
      (enhanced_init False) ''Hello'' None False)) \<noteq> ''openai''"
    by (simp add: enhanced_local_path core_path_result enhanced_init_fields)
  show ?thesis
    using cat hello blank third local not_openai
      confidence_in_unit_interval [where s = chatbot_init and e = env0
        and u = "''   ''" and sid = None and gen = always_failing
        and t = "enhanced_init False" and uid = None and use = False]
      confidence_in_unit_interval [where s = chatbot_init and e = env0
        and u = "''Hello''" and sid = None and gen = always_failing
        and t = "enhanced_init False" and uid = None and use = False]
    by simp
qed

end
